theory Spec2Isabelle
  imports Complex_Main
begin

section \<open>merge\_datasets.py: the dataset merger\<close>

text \<open>
  Python floats are modelled as \<open>real\<close>, Python ints as \<open>int\<close> (or \<open>nat\<close> for list
  indices and lengths, with \<open>max(0, i - 1)\<close> written out over \<open>int\<close>).  The dictionaries
  the merger reads are modelled as records: a VM feature row has its \<open>'timestamp'\<close> and
  the remaining keys; a baremetal power row has its \<open>'timestamp'\<close> and, for every key the
  code reads with \<open>.get(key, default)\<close>, an optional value (\<open>None\<close>: key absent).
\<close>

record feature_row =
  f_timestamp :: real
  f_fields :: "(string \<times> real) list"

record power_row =
  p_timestamp :: real
  p_total_cpu_watts_core :: "real option"
  p_total_cpu_watts_package :: "real option"
  p_vm_count :: "int option"
  p_collection_interval :: "real option"

text \<open>\<open>merged_point = vm_point.copy()\<close> plus the label keys added in \<open>merge_datasets\<close>.\<close>

record merged_point =
  vm_features :: feature_row
  power_watts :: real
  m_power_zone :: string
  bm_timestamp :: real
  time_diff :: real
  m_vm_count :: int
  bm_collection_interval :: real

record MergeStatistics =
  vm_feature_points :: nat
  bm_power_points :: nat
  matched_points :: nat
  unmatched_vm_points :: int
  unmatched_bm_points :: int
  time_range_vm :: "real \<times> real"
  time_range_bm :: "real \<times> real"
  time_range_merged :: "real \<times> real"
  power_range :: "real \<times> real"
  average_time_diff :: real
  max_time_diff :: real

definition MergeStatistics_init :: MergeStatistics where
  "MergeStatistics_init =
     \<lparr>vm_feature_points = 0, bm_power_points = 0, matched_points = 0,
      unmatched_vm_points = 0, unmatched_bm_points = 0,
      time_range_vm = (0, 0), time_range_bm = (0, 0), time_range_merged = (0, 0),
      power_range = (0, 0), average_time_diff = 0, max_time_diff = 0\<rparr>"

record DatasetMerger =
  time_tolerance :: real
  min_power_threshold :: real
  power_zone :: string
  vm_data :: "feature_row list"
  bm_data :: "power_row list"
  merged_data :: "merged_point list"
  statistics :: MergeStatistics

text \<open>\<open>DatasetMerger.__init__\<close>: the three lists start empty, the statistics at their defaults.\<close>

definition DatasetMerger_init :: "real \<Rightarrow> real \<Rightarrow> string \<Rightarrow> DatasetMerger" where
  "DatasetMerger_init tol thr zone =
     \<lparr>time_tolerance = tol, min_power_threshold = thr, power_zone = zone,
      vm_data = [], bm_data = [], merged_data = [], statistics = MergeStatistics_init\<rparr>"

text \<open>
  The part of \<open>load_vm_features\<close> and \<open>load_bm_power\<close> that follows the file parse: the
  parsed rows are stored first, an empty file is refused, otherwise the rows are sorted
  by timestamp (stable, as Python's \<open>list.sort\<close>) and the input statistics recorded.
\<close>

definition load_vm_features :: "feature_row list \<Rightarrow> DatasetMerger \<Rightarrow> bool \<times> DatasetMerger" where
  "load_vm_features rows m =
     (if rows = [] then (False, m\<lparr>vm_data := []\<rparr>)
      else let sorted_rows = sort_key f_timestamp rows in
        (True, m\<lparr>vm_data := sorted_rows,
                  statistics := (statistics m)
                    \<lparr>vm_feature_points := length sorted_rows,
                     time_range_vm := (f_timestamp (hd sorted_rows), f_timestamp (last sorted_rows))\<rparr>\<rparr>))"

definition load_bm_power :: "power_row list \<Rightarrow> DatasetMerger \<Rightarrow> bool \<times> DatasetMerger" where
  "load_bm_power rows m =
     (if rows = [] then (False, m)
      else let sorted_rows = sort_key p_timestamp rows in
        (True, m\<lparr>bm_data := sorted_rows,
                  statistics := (statistics m)
                    \<lparr>bm_power_points := length sorted_rows,
                     time_range_bm := (p_timestamp (hd sorted_rows), p_timestamp (last sorted_rows))\<rparr>\<rparr>))"

subsection \<open>\_find\_closest\_power\_point\<close>

text \<open>
  The \<open>for i in range(bm_start_idx, len(self.bm_data))\<close> loop, as a recursion over the rows
  still to visit together with the index \<open>i\<close> of the first of them.  \<open>closest_diff\<close> starts
  as \<open>float('inf')\<close>, modelled as \<open>None\<close>: every finite difference is below it.
\<close>

definition below_closest :: "real \<Rightarrow> real option \<Rightarrow> bool" where
  "below_closest d closest_diff = (case closest_diff of None \<Rightarrow> True | Some c \<Rightarrow> d < c)"

fun closest_scan ::
  "real \<Rightarrow> real \<Rightarrow> power_row list \<Rightarrow> nat \<Rightarrow> power_row option \<Rightarrow> real option \<Rightarrow> nat
     \<Rightarrow> power_row option \<times> nat" where
  "closest_scan tol target [] i closest_point closest_diff closest_idx =
     (closest_point, closest_idx)"
| "closest_scan tol target (power_point # rest) i closest_point closest_diff closest_idx =
     (let time_diff = \<bar>p_timestamp power_point - target\<bar> in
      if time_diff \<le> tol \<and> below_closest time_diff closest_diff
      then closest_scan tol target rest (Suc i) (Some power_point) (Some time_diff) i
      else if p_timestamp power_point > target + tol
      then (closest_point, closest_idx)
      else closest_scan tol target rest (Suc i) closest_point closest_diff closest_idx)"

definition find_closest_power_point ::
  "DatasetMerger \<Rightarrow> real \<Rightarrow> nat \<Rightarrow> power_row option \<times> nat" where
  "find_closest_power_point m target_timestamp bm_start_idx =
     closest_scan (time_tolerance m) target_timestamp (drop bm_start_idx (bm_data m))
       bm_start_idx None None bm_start_idx"

subsection \<open>\_get\_power\_label\<close>

definition get_or :: "'a option \<Rightarrow> 'a \<Rightarrow> 'a" where
  "get_or v d = (case v of None \<Rightarrow> d | Some x \<Rightarrow> x)"

definition get_power_label :: "DatasetMerger \<Rightarrow> power_row \<Rightarrow> real" where
  "get_power_label m power_point =
     (if power_zone m = ''core'' then get_or (p_total_cpu_watts_core power_point) 0
      else if power_zone m = ''package'' then get_or (p_total_cpu_watts_package power_point) 0
      else get_or (p_total_cpu_watts_core power_point) 0)"

subsection \<open>merge\_datasets\<close>

text \<open>
  The variables the \<open>for i, vm_point in enumerate(self.vm_data)\<close> loop updates:
  \<open>self.merged_data\<close> and the four locals.
\<close>

record merge_loop =
  l_merged_data :: "merged_point list"
  matched_count :: nat
  time_diffs :: "real list"
  power_values :: "real list"
  bm_search_start :: nat

text \<open>One iteration of the loop body.\<close>

definition merge_step :: "DatasetMerger \<Rightarrow> merge_loop \<Rightarrow> feature_row \<Rightarrow> merge_loop" where
  "merge_step m st vm_point =
     (let vm_timestamp = f_timestamp vm_point;
          (found, search_idx) = find_closest_power_point m vm_timestamp (bm_search_start st)
      in case found of
           None \<Rightarrow> st
         | Some power_point \<Rightarrow>
             (let power_value = get_power_label m power_point in
              if power_value \<ge> min_power_threshold m
              then let merged_pt =
                     \<lparr>vm_features = vm_point,
                      power_watts = power_value,
                      m_power_zone = power_zone m,
                      bm_timestamp = p_timestamp power_point,
                      time_diff = \<bar>vm_timestamp - p_timestamp power_point\<bar>,
                      m_vm_count = get_or (p_vm_count power_point) 1,
                      bm_collection_interval = get_or (p_collection_interval power_point) (1 / 10)\<rparr>
                   in st\<lparr>l_merged_data := l_merged_data st @ [merged_pt],
                         matched_count := matched_count st + 1,
                         time_diffs := time_diffs st @ [time_diff merged_pt],
                         power_values := power_values st @ [power_value],
                         bm_search_start := nat (max 0 (int search_idx - 1))\<rparr>
              else st))"

definition merge_loop_init :: "DatasetMerger \<Rightarrow> merge_loop" where
  "merge_loop_init m =
     \<lparr>l_merged_data = merged_data m, matched_count = 0, time_diffs = [], power_values = [],
      bm_search_start = 0\<rparr>"

definition run_merge_loop :: "DatasetMerger \<Rightarrow> merge_loop" where
  "run_merge_loop m = foldl (merge_step m) (merge_loop_init m) (vm_data m)"

text \<open>\<open>np.mean\<close>, \<open>np.min\<close>/\<open>min\<close> and \<open>np.max\<close>/\<open>max\<close>, each called on a non-empty list only.\<close>

definition np_mean :: "real list \<Rightarrow> real" where
  "np_mean xs = sum_list xs / real (length xs)"

definition np_min :: "real list \<Rightarrow> real" where
  "np_min xs = foldl min (hd xs) (tl xs)"

definition np_max :: "real list \<Rightarrow> real" where
  "np_max xs = foldl max (hd xs) (tl xs)"

definition merge_datasets :: "DatasetMerger \<Rightarrow> bool \<times> DatasetMerger" where
  "merge_datasets m =
     (if vm_data m = [] \<or> bm_data m = [] then (False, m)
      else
        let st = run_merge_loop m;
            s1 = (statistics m)
                   \<lparr>matched_points := matched_count st,
                    unmatched_vm_points := int (length (vm_data m)) - int (matched_count st),
                    unmatched_bm_points := int (length (bm_data m))\<rparr>;
            s2 = (if time_diffs st \<noteq> []
                  then s1\<lparr>average_time_diff := np_mean (time_diffs st),
                          max_time_diff := np_max (time_diffs st)\<rparr>
                  else s1);
            s3 = (if power_values st \<noteq> []
                  then s2\<lparr>power_range := (np_min (power_values st), np_max (power_values st))\<rparr>
                  else s2);
            s4 = (if l_merged_data st \<noteq> []
                  then let merged_timestamps = map (\<lambda>p. f_timestamp (vm_features p)) (l_merged_data st)
                       in s3\<lparr>time_range_merged := (np_min merged_timestamps, np_max merged_timestamps)\<rparr>
                  else s3)
        in (matched_count st > 0, m\<lparr>merged_data := l_merged_data st, statistics := s4\<rparr>))"

text \<open>The records one call appends to \<open>self.merged_data\<close>.\<close>

definition produced :: "DatasetMerger \<Rightarrow> merged_point list" where
  "produced m = drop (length (merged_data m)) (merged_data (snd (merge_datasets m)))"

section \<open>bm\_power\_collector.py: the baremetal power collector\<close>

text \<open>One entry of the lists \<open>_parse_vm_metrics\<close> returns (the keys the collector reads).\<close>

record vm_info =
  vm_id :: string
  vm_name :: string
  zone :: string
  watts :: real

record PowerDataPoint =
  timestamp :: real
  timestamp_absolute :: real
  total_cpu_watts_core :: real
  total_cpu_watts_package :: real
  vm_count :: nat
  vms :: "vm_info list"
  collection_interval :: real

text \<open>
  The collector object.  \<open>target_vms\<close> is \<open>None\<close> or a non-empty set: the empty list stands
  for \<open>None\<close>.  \<open>vm_pattern\<close> is a compiled regular expression, modelled by its \<open>search\<close>
  predicate.
\<close>

record BaremetalPowerCollector =
  c_collection_interval :: real
  c_max_retries :: nat
  c_target_vms :: "string list"
  c_vm_pattern :: "(string \<Rightarrow> bool) option"
  c_sync_start_time :: "real option"
  c_collection_start_time :: "real option"

text \<open>\<open>_wait_for_sync_start\<close>, given what \<open>time.time()\<close> reads on entry.\<close>

definition wait_for_sync_start :: "BaremetalPowerCollector \<Rightarrow> real \<Rightarrow> real \<times> BaremetalPowerCollector" where
  "wait_for_sync_start c now =
     (let start_time = (case c_sync_start_time c of None \<Rightarrow> now | Some t \<Rightarrow> t)
      in (start_time, c\<lparr>c_collection_start_time := Some start_time\<rparr>))"

definition filter_vms :: "BaremetalPowerCollector \<Rightarrow> vm_info list \<Rightarrow> vm_info list" where
  "filter_vms c vm_list =
     (if c_target_vms c = [] \<and> c_vm_pattern c = None then vm_list
      else filter (\<lambda>vm.
             (c_target_vms c \<noteq> [] \<and>
                (vm_name vm \<in> set (c_target_vms c) \<or> vm_id vm \<in> set (c_target_vms c))) \<or>
             (case c_vm_pattern c of
                None \<Rightarrow> False
              | Some search \<Rightarrow> list_ex search (filter (\<lambda>field. field \<noteq> []) [vm_name vm, vm_id vm])))
           vm_list)"

text \<open>
  What one \<open>session.get\<close> attempt brings: the parsed metrics of both zones, a
  \<open>requests.RequestException\<close>, or another exception.
\<close>

datatype attempt =
  Response "vm_info list" "vm_info list"
| RequestException
| OtherException

text \<open>
  \<open>collect_power_metrics_with_timestamp\<close>: the retry loop
  \<open>for attempt in range(self.max_retries)\<close>, \<open>n\<close> counting the attempts left and
  \<open>attempts k\<close> giving the outcome of attempt \<open>k\<close>.  A missing \<open>collection_start_time\<close> makes
  the subtraction raise, which the \<open>except Exception\<close> turns into \<open>None\<close>.
\<close>

definition make_data_point ::
  "BaremetalPowerCollector \<Rightarrow> real \<Rightarrow> vm_info list \<Rightarrow> vm_info list \<Rightarrow> PowerDataPoint option" where
  "make_data_point c target_timestamp core package =
     (let filtered_core = filter_vms c core;
          filtered_package = filter_vms c package;
          total_core_watts = sum_list (map watts filtered_core);
          total_package_watts = sum_list (map watts filtered_package);
          count = length filtered_core;
          ts = target_timestamp
      in case c_collection_start_time c of
           None \<Rightarrow> None
         | Some cs \<Rightarrow>
             Some \<lparr>timestamp = ts - cs,
                   timestamp_absolute = ts,
                   total_cpu_watts_core = total_core_watts,
                   total_cpu_watts_package = total_package_watts,
                   vm_count = count,
                   vms = map (\<lambda>vm. vm\<lparr>zone := ''core''\<rparr>) filtered_core @
                         map (\<lambda>vm. vm\<lparr>zone := ''package''\<rparr>) filtered_package,
                   collection_interval = c_collection_interval c\<rparr>)"

fun retry_loop ::
  "BaremetalPowerCollector \<Rightarrow> real \<Rightarrow> (nat \<Rightarrow> attempt) \<Rightarrow> nat \<Rightarrow> nat \<Rightarrow> PowerDataPoint option" where
  "retry_loop c target_timestamp attempts k 0 = None"
| "retry_loop c target_timestamp attempts k (Suc n) =
     (case attempts k of
        Response core package \<Rightarrow> make_data_point c target_timestamp core package
      | RequestException \<Rightarrow>
          (if k < c_max_retries c - 1 then retry_loop c target_timestamp attempts (Suc k) n
           else None)
      | OtherException \<Rightarrow> None)"

definition collect_power_metrics_with_timestamp ::
  "BaremetalPowerCollector \<Rightarrow> real \<Rightarrow> (nat \<Rightarrow> attempt) \<Rightarrow> PowerDataPoint option" where
  "collect_power_metrics_with_timestamp c target_timestamp attempts =
     retry_loop c target_timestamp attempts 0 (c_max_retries c)"

text \<open>
  \<open>collect_power_data\<close>.  The environment of one turn of the \<open>while\<close> loop: whether
  \<open>collection_active\<close> still holds (a signal handler clears it), what \<open>time.time()\<close> reads
  in the loop condition and after the target time is computed, and the outcomes of the
  scrape attempts.  The loop runs over the list of these environments and stops at the
  first whose condition fails; a list that ends earlier gives the state reached so far.
\<close>

record cycle_env =
  active :: bool
  cond_time :: real
  current_time :: real
  attempts_of :: "nat \<Rightarrow> attempt"

record collect_state =
  power_data :: "PowerDataPoint list"
  collection_count :: nat
  error_count :: nat

definition loop_condition :: "real \<Rightarrow> real \<Rightarrow> cycle_env \<Rightarrow> bool" where
  "loop_condition start_time duration e \<longleftrightarrow> active e \<and> cond_time e - start_time < duration"

definition target_time_of :: "BaremetalPowerCollector \<Rightarrow> real \<Rightarrow> nat \<Rightarrow> real" where
  "target_time_of c start_time count = start_time + real count * c_collection_interval c"

text \<open>
  One turn.  The sleep until the target changes no variable of the loop.  When the scrape
  fails, the counters are raised and the following \<open>logger.debug\<close> reads the undefined
  name \<open>sleep_time\<close>: the \<open>NameError\<close> reaches \<open>except Exception\<close>, which counts a second
  error.
\<close>

definition collect_cycle ::
  "BaremetalPowerCollector \<Rightarrow> real \<Rightarrow> cycle_env \<Rightarrow> collect_state \<Rightarrow> collect_state" where
  "collect_cycle c start_time e s =
     (let target_time = target_time_of c start_time (collection_count s);
          sleep_duration = target_time - current_time e;
          target_timestamp = target_time
      in case collect_power_metrics_with_timestamp c target_timestamp (attempts_of e) of
           Some data_point \<Rightarrow>
             s\<lparr>power_data := power_data s @ [data_point],
               collection_count := collection_count s + 1\<rparr>
         | None \<Rightarrow>
             s\<lparr>error_count := error_count s + 1 + 1,
               collection_count := collection_count s + 1\<rparr>)"

fun collect_loop ::
  "BaremetalPowerCollector \<Rightarrow> real \<Rightarrow> real \<Rightarrow> cycle_env list \<Rightarrow> collect_state \<Rightarrow> collect_state" where
  "collect_loop c start_time duration [] s = s"
| "collect_loop c start_time duration (e # es) s =
     (if loop_condition start_time duration e
      then collect_loop c start_time duration es (collect_cycle c start_time e s)
      else s)"

definition collect_power_data ::
  "BaremetalPowerCollector \<Rightarrow> PowerDataPoint list \<Rightarrow> real \<Rightarrow> real \<Rightarrow> cycle_env list
     \<Rightarrow> PowerDataPoint list" where
  "collect_power_data c0 data0 duration now envs =
     (let (start_time, c) = wait_for_sync_start c0 now
      in power_data (collect_loop c start_time duration envs
           \<lparr>power_data = data0, collection_count = 0, error_count = 0\<rparr>))"

text \<open>The number of turns the loop takes on a list of environments.\<close>

definition cycles_run :: "real \<Rightarrow> real \<Rightarrow> cycle_env list \<Rightarrow> nat" where
  "cycles_run start_time duration envs = length (takeWhile (loop_condition start_time duration) envs)"

section \<open>vm\_feature\_collector.py: the VM feature collector\<close>

text \<open>
  Python dictionaries with string keys are association lists here; \<open>d.get(k, default)\<close>
  is \<open>dict_get\<close>, \<open>d[k]\<close> is \<open>dict_index\<close> and raises \<open>KeyError\<close> on a missing key.
\<close>

datatype py_error = KeyError | ZeroDivisionError

definition dict_get :: "(string \<times> 'a) list \<Rightarrow> string \<Rightarrow> 'a \<Rightarrow> 'a" where
  "dict_get d k dflt = (case map_of d k of None \<Rightarrow> dflt | Some v \<Rightarrow> v)"

definition dict_index :: "(string \<times> 'a) list \<Rightarrow> string \<Rightarrow> py_error + 'a" where
  "dict_index d k = (case map_of d k of None \<Rightarrow> Inl KeyError | Some v \<Rightarrow> Inr v)"

text \<open>Python's \<open>/\<close> on two ints: a float, or \<open>ZeroDivisionError\<close>.\<close>

definition py_truediv :: "int \<Rightarrow> int \<Rightarrow> py_error + real" where
  "py_truediv a b = (if b = 0 then Inl ZeroDivisionError else Inr (real_of_int a / real_of_int b))"

text \<open>Python's \<open>a or b\<close> on floats: \<open>a\<close> unless it is zero.\<close>

definition py_or :: "real \<Rightarrow> real \<Rightarrow> real" where
  "py_or a b = (if a \<noteq> 0 then a else b)"

subsection \<open>\_compute\_proc\_stat\_deltas\<close>

text \<open>A \<open>/proc/stat\<close> snapshot as \<open>_read_proc_stat\<close> returns it; \<open>None\<close> is an absent key.\<close>

record proc_stat =
  ps_cpu :: "(string \<times> int) list option"
  ps_context_switches :: "int option"
  ps_processes_created :: "int option"
  ps_procs_running :: "int option"
  ps_procs_blocked :: "int option"

text \<open>\<open>not stat\<close>: the dictionary has no key.\<close>

definition stat_is_empty :: "proc_stat \<Rightarrow> bool" where
  "stat_is_empty s \<longleftrightarrow>
     ps_cpu s = None \<and> ps_context_switches s = None \<and> ps_processes_created s = None \<and>
     ps_procs_running s = None \<and> ps_procs_blocked s = None"

definition cpu_keys :: "string list" where
  "cpu_keys = [''user'', ''nice'', ''system'', ''idle'', ''iowait'', ''irq'', ''softirq'', ''steal'']"

definition delta_jiffies :: "(string \<times> int) list \<Rightarrow> (string \<times> int) list \<Rightarrow> string \<Rightarrow> int" where
  "delta_jiffies prev_cpu curr_cpu field =
     (let prev_val = dict_get prev_cpu field 0;
          curr_val = dict_get curr_cpu field 0
      in max 0 (curr_val - prev_val))"

text \<open>\<open>cpu_deltas[field]\<close>, in seconds, and the sum \<open>total_delta\<close> of the jiffies.\<close>

definition cpu_deltas :: "(string \<times> int) list \<Rightarrow> (string \<times> int) list \<Rightarrow> int \<Rightarrow> string \<Rightarrow> real" where
  "cpu_deltas prev_cpu curr_cpu jiffies_per_second field =
     real_of_int (delta_jiffies prev_cpu curr_cpu field) / real_of_int jiffies_per_second"

definition total_delta :: "(string \<times> int) list \<Rightarrow> (string \<times> int) list \<Rightarrow> int" where
  "total_delta prev_cpu curr_cpu = sum_list (map (delta_jiffies prev_cpu curr_cpu) cpu_keys)"

definition sys_cpu_utilization :: "(string \<times> int) list \<Rightarrow> (string \<times> int) list \<Rightarrow> int \<Rightarrow> real" where
  "sys_cpu_utilization prev_cpu curr_cpu jiffies_per_second =
     (if total_delta prev_cpu curr_cpu > 0
      then let idle_jiffies = cpu_deltas prev_cpu curr_cpu jiffies_per_second ''idle''
                                * real_of_int jiffies_per_second;
               active_jiffies = real_of_int (total_delta prev_cpu curr_cpu) - idle_jiffies
           in (active_jiffies / real_of_int (total_delta prev_cpu curr_cpu)) * 100
      else 0)"

text \<open>
  The entries the \<open>if prev_cpu and curr_cpu\<close> block stores.  With zero ticks per second
  the first division raises before anything is stored.
\<close>

definition cpu_entries ::
  "(string \<times> int) list \<Rightarrow> (string \<times> int) list \<Rightarrow> int \<Rightarrow> py_error + (string \<times> real) list" where
  "cpu_entries prev_cpu curr_cpu jiffies_per_second =
     (if jiffies_per_second = 0 then Inl ZeroDivisionError
      else let sec = cpu_deltas prev_cpu curr_cpu jiffies_per_second in
        Inr ([(''sys_cpu_user_seconds'', sec ''user''),
              (''sys_cpu_system_seconds'', sec ''system''),
              (''sys_cpu_total_seconds'', sec ''user'' + sec ''system'' + sec ''nice''),
              (''sys_cpu_utilization'', sys_cpu_utilization prev_cpu curr_cpu jiffies_per_second)] @
             (if total_delta prev_cpu curr_cpu > 0
              then map (\<lambda>field.
                     (''sys_cpu_'' @ field @ ''_percent'',
                      (sec field * real_of_int jiffies_per_second
                         / real_of_int (total_delta prev_cpu curr_cpu)) * 100)) cpu_keys
              else [])))"

text \<open>
  \<open>clk_tck\<close> is what \<open>os.sysconf\<close> gives for \<open>SC_CLK_TCK\<close>, \<open>None\<close> when the lookup raises
  (the code then takes 100).  An exception inside the \<open>try\<close> returns the entries stored
  so far.
\<close>

definition compute_proc_stat_deltas ::
  "proc_stat \<Rightarrow> proc_stat \<Rightarrow> real \<Rightarrow> int option \<Rightarrow> (string \<times> real) list" where
  "compute_proc_stat_deltas prev_stat curr_stat time_delta clk_tck =
     (if stat_is_empty prev_stat \<or> stat_is_empty curr_stat then []
      else
        let prev_cpu = get_or (ps_cpu prev_stat) [];
            curr_cpu = get_or (ps_cpu curr_stat) [];
            jiffies_per_second = get_or clk_tck 100;
            rest =
              [(''sys_context_switches'',
                  real_of_int (max 0 (get_or (ps_context_switches curr_stat) 0
                                        - get_or (ps_context_switches prev_stat) 0))),
               (''sys_processes_created'',
                  real_of_int (max 0 (get_or (ps_processes_created curr_stat) 0
                                        - get_or (ps_processes_created prev_stat) 0))),
               (''sys_procs_running'', real_of_int (get_or (ps_procs_running curr_stat) 0)),
               (''sys_procs_blocked'', real_of_int (get_or (ps_procs_blocked curr_stat) 0))]
        in if prev_cpu \<noteq> [] \<and> curr_cpu \<noteq> []
           then (case cpu_entries prev_cpu curr_cpu jiffies_per_second of
                   Inl e \<Rightarrow> []
                 | Inr entries \<Rightarrow> entries @ rest)
           else rest)"

subsection \<open>\_compute\_os\_metrics\_from\_snapshots\<close>

text \<open>A snapshot as \<open>_snapshot_os_counters\<close> returns it.\<close>

record os_snapshot =
  os_cpu_times :: "(string \<times> real) list option"
  os_disk_io :: "(string \<times> int) list option"
  os_net_io :: "(string \<times> int) list option"
  os_memory :: "(string \<times> real) list option"
  os_process_count :: "int option"
  os_load_avg :: "(string \<times> real) list option"

definition os_deltas :: "os_snapshot \<Rightarrow> os_snapshot \<Rightarrow> string \<Rightarrow> real" where
  "os_deltas snap0 snap1 k =
     (let t0 = get_or (os_cpu_times snap0) [];
          t1 = get_or (os_cpu_times snap1) []
      in max 0 (dict_get t1 k 0 - dict_get t0 k 0))"

definition os_total :: "os_snapshot \<Rightarrow> os_snapshot \<Rightarrow> real \<Rightarrow> real" where
  "os_total snap0 snap1 time_delta =
     py_or (py_or (sum_list (map (os_deltas snap0 snap1) cpu_keys)) time_delta) 1"

definition metrics_map :: "(string \<times> string) list" where
  "metrics_map =
     [(''user'', ''cpu_user_time''), (''nice'', ''cpu_nice_time''),
      (''system'', ''cpu_system_time''), (''idle'', ''cpu_idle''),
      (''iowait'', ''cpu_iowait''), (''irq'', ''cpu_irq''),
      (''softirq'', ''cpu_softirq''), (''steal'', ''cpu_steal'')]"

definition byte_delta :: "(string \<times> int) list option \<Rightarrow> (string \<times> int) list option \<Rightarrow> string \<Rightarrow> int" where
  "byte_delta c0 c1 k = max 0 (dict_get (get_or c1 []) k 0 - dict_get (get_or c0 []) k 0)"

definition compute_os_metrics_from_snapshots ::
  "os_snapshot \<Rightarrow> os_snapshot \<Rightarrow> real \<Rightarrow> (string \<times> real) list" where
  "compute_os_metrics_from_snapshots snap0 snap1 time_delta =
     (let total = os_total snap0 snap1 time_delta;
          cpu_metrics = map (\<lambda>k. (dict_get metrics_map k [],
                                   (os_deltas snap0 snap1 k / total) * 100)) cpu_keys;
          mem1 = get_or (os_memory snap1) [];
          la1 = get_or (os_load_avg snap1) []
      in cpu_metrics @
         [(''cpu_utilization'', 100 - dict_get cpu_metrics ''cpu_idle'' 0),
          (''disk_io_read_mb'',
             real_of_int (byte_delta (os_disk_io snap0) (os_disk_io snap1) ''read_bytes'') / (1024 * 1024)),
          (''disk_io_write_mb'',
             real_of_int (byte_delta (os_disk_io snap0) (os_disk_io snap1) ''write_bytes'') / (1024 * 1024)),
          (''network_bytes_sent'',
             real_of_int (byte_delta (os_net_io snap0) (os_net_io snap1) ''bytes_sent'')),
          (''network_bytes_recv'',
             real_of_int (byte_delta (os_net_io snap0) (os_net_io snap1) ''bytes_recv'')),
          (''memory_usage_percent'', dict_get mem1 ''percent'' 0),
          (''memory_available_gb'', dict_get mem1 ''available_gb'' 0),
          (''process_count'', real_of_int (get_or (os_process_count snap1) 0)),
          (''load_average_1min'', dict_get la1 ''la1'' 0),
          (''load_average_5min'', dict_get la1 ''la5'' 0),
          (''load_average_15min'', dict_get la1 ''la15'' 0)])"

subsection \<open>calculate\_derived\_features\<close>

text \<open>
  One guarded ratio: \<open>pmc_data.get(num, 0) / pmc_data[den]\<close> under
  \<open>if pmc_data.get(den, 0) > 0\<close>, otherwise \<open>0.0\<close>.
\<close>

definition guarded_ratio :: "(string \<times> int) list \<Rightarrow> string \<Rightarrow> string \<Rightarrow> py_error + real" where
  "guarded_ratio pmc_data num den =
     (if dict_get pmc_data den 0 > 0
      then (case dict_index pmc_data den of
              Inl e \<Rightarrow> Inl e
            | Inr d \<Rightarrow> py_truediv (dict_get pmc_data num 0) d)
      else Inr 0)"

definition calculate_derived_features ::
  "(string \<times> int) list \<Rightarrow> (string \<times> real) list \<Rightarrow> py_error + (string \<times> real) list" where
  "calculate_derived_features pmc_data os_data =
     (case guarded_ratio pmc_data ''instructions'' ''cpu_cycles'' of
        Inl e \<Rightarrow> Inl e
      | Inr ipc \<Rightarrow>
     (case guarded_ratio pmc_data ''cache_misses'' ''cache_references'' of
        Inl e \<Rightarrow> Inl e
      | Inr cmr \<Rightarrow>
     (case guarded_ratio pmc_data ''branch_misses'' ''branches'' of
        Inl e \<Rightarrow> Inl e
      | Inr bmr \<Rightarrow>
          (let total_active = dict_get os_data ''cpu_user_time'' 0 + dict_get os_data ''cpu_system_time'' 0
           in Inr [(''instructions_per_cycle'', ipc),
                   (''cache_miss_ratio'', cmr),
                   (''branch_miss_ratio'', bmr),
                   (''cpu_efficiency'', total_active / 100)]))))"

subsection \<open>collect\_feature\_point\<close>

text \<open>The dataclass \<open>VMFeaturePoint\<close> (without its ISO timestamp and zone list).\<close>

record VMFeaturePoint =
  fp_timestamp :: real
  cpu_cycles :: int
  instructions :: int
  cache_references :: int
  cache_misses :: int
  branches :: int
  branch_misses :: int
  page_faults :: int
  context_switches :: int
  cpu_utilization :: real
  cpu_user_time :: real
  cpu_system_time :: real
  cpu_nice_time :: real
  cpu_iowait :: real
  cpu_irq :: real
  cpu_softirq :: real
  cpu_steal :: real
  cpu_idle :: real
  memory_usage_percent :: real
  memory_available_gb :: real
  disk_io_read_mb :: real
  disk_io_write_mb :: real
  network_bytes_sent :: real
  network_bytes_recv :: real
  process_count :: real
  load_average_1min :: real
  load_average_5min :: real
  load_average_15min :: real
  instructions_per_cycle :: real
  cache_miss_ratio :: real
  branch_miss_ratio :: real
  cpu_efficiency :: real
  sys_cpu_user_seconds :: real
  sys_cpu_system_seconds :: real
  sys_cpu_total_seconds :: real
  sys_context_switches :: real
  sys_processes_created :: real
  sys_procs_running :: real
  sys_procs_blocked :: real
  fp_collection_interval :: real
  time_delta_seconds :: real
  vm_hostname :: string

text \<open>
  The constructor call of \<open>collect_feature_point\<close>: every field is read from one of the
  four dictionaries with \<open>.get(key, 0)\<close>.
\<close>

definition make_point ::
  "real \<Rightarrow> (string \<times> real) list \<Rightarrow> (string \<times> int) list \<Rightarrow> (string \<times> real) list
     \<Rightarrow> (string \<times> real) list \<Rightarrow> real \<Rightarrow> real \<Rightarrow> string \<Rightarrow> VMFeaturePoint" where
  "make_point ts system_deltas pmc_data os_data derived_data interval time_delta hostname =
     \<lparr>fp_timestamp = ts,
      cpu_cycles = dict_get pmc_data ''cpu_cycles'' 0,
      instructions = dict_get pmc_data ''instructions'' 0,
      cache_references = dict_get pmc_data ''cache_references'' 0,
      cache_misses = dict_get pmc_data ''cache_misses'' 0,
      branches = dict_get pmc_data ''branches'' 0,
      branch_misses = dict_get pmc_data ''branch_misses'' 0,
      page_faults = dict_get pmc_data ''page_faults'' 0,
      context_switches = dict_get pmc_data ''context_switches'' 0,
      cpu_utilization = dict_get os_data ''cpu_utilization'' 0,
      cpu_user_time = dict_get os_data ''cpu_user_time'' 0,
      cpu_system_time = dict_get os_data ''cpu_system_time'' 0,
      cpu_nice_time = dict_get os_data ''cpu_nice_time'' 0,
      cpu_iowait = dict_get os_data ''cpu_iowait'' 0,
      cpu_irq = dict_get os_data ''cpu_irq'' 0,
      cpu_softirq = dict_get os_data ''cpu_softirq'' 0,
      cpu_steal = dict_get os_data ''cpu_steal'' 0,
      cpu_idle = dict_get os_data ''cpu_idle'' 0,
      memory_usage_percent = dict_get os_data ''memory_usage_percent'' 0,
      memory_available_gb = dict_get os_data ''memory_available_gb'' 0,
      disk_io_read_mb = dict_get os_data ''disk_io_read_mb'' 0,
      disk_io_write_mb = dict_get os_data ''disk_io_write_mb'' 0,
      network_bytes_sent = dict_get os_data ''network_bytes_sent'' 0,
      network_bytes_recv = dict_get os_data ''network_bytes_recv'' 0,
      process_count = dict_get os_data ''process_count'' 0,
      load_average_1min = dict_get os_data ''load_average_1min'' 0,
      load_average_5min = dict_get os_data ''load_average_5min'' 0,
      load_average_15min = dict_get os_data ''load_average_15min'' 0,
      instructions_per_cycle = dict_get derived_data ''instructions_per_cycle'' 0,
      cache_miss_ratio = dict_get derived_data ''cache_miss_ratio'' 0,
      branch_miss_ratio = dict_get derived_data ''branch_miss_ratio'' 0,
      cpu_efficiency = dict_get derived_data ''cpu_efficiency'' 0,
      sys_cpu_user_seconds = dict_get system_deltas ''sys_cpu_user_seconds'' 0,
      sys_cpu_system_seconds = dict_get system_deltas ''sys_cpu_system_seconds'' 0,
      sys_cpu_total_seconds = dict_get system_deltas ''sys_cpu_total_seconds'' 0,
      sys_context_switches = dict_get system_deltas ''sys_context_switches'' 0,
      sys_processes_created = dict_get system_deltas ''sys_processes_created'' 0,
      sys_procs_running = dict_get system_deltas ''sys_procs_running'' 0,
      sys_procs_blocked = dict_get system_deltas ''sys_procs_blocked'' 0,
      fp_collection_interval = interval,
      time_delta_seconds = time_delta,
      vm_hostname = hostname\<rparr>"

record VMFeatureCollector =
  v_collection_interval :: real
  v_synchronized :: bool
  v_vm_hostname :: string
  prev_proc_stat :: "proc_stat option"
  prev_collection_time :: real

text \<open>
  What one call of \<open>collect_feature_point\<close> meets: the reading \<open>t_start\<close> of the first
  \<open>time.time()\<close>; the snapshots; the counters \<open>collect_pmc_metrics\<close> returns and the time
  \<open>pmc_elapsed\<close> that has passed when \<open>time.time()\<close> is read after it; the time \<open>wake_lag\<close>
  that passes before \<open>time.time()\<close> is read for \<open>t1\<close> beyond the sleep that was asked for;
  the result of \<open>os.sysconf\<close>; and, in the mode that is not synchronized, the dictionary
  \<open>collect_os_metrics\<close> returns.
\<close>

record feature_env =
  t_start :: real
  proc_stat0 :: proc_stat
  os0 :: os_snapshot
  pmc_counters :: "(string \<times> int) list"
  pmc_elapsed :: real
  wake_lag :: real
  proc_stat1 :: proc_stat
  os1 :: os_snapshot
  clk_tck :: "int option"
  legacy_os_data :: "(string \<times> real) list"

text \<open>\<open>time.sleep(secs)\<close> started at \<open>now\<close>: the clock when the next reading is taken.\<close>

definition time_sleep :: "real \<Rightarrow> real \<Rightarrow> real \<Rightarrow> real" where
  "time_sleep now secs lag = now + secs + lag"

text \<open>The reading \<open>t1\<close> of the synchronized branch.\<close>

definition t1_reading :: "VMFeatureCollector \<Rightarrow> feature_env \<Rightarrow> real" where
  "t1_reading c env =
     (let t0 = t_start env;
          t_after_pmc = t0 + pmc_elapsed env;
          elapsed = t_after_pmc - t0
      in if elapsed < v_collection_interval c
         then (let remaining_sleep = v_collection_interval c - elapsed
               in time_sleep t_after_pmc remaining_sleep (wake_lag env))
         else t_after_pmc + wake_lag env)"

definition collect_feature_point ::
  "VMFeatureCollector \<Rightarrow> feature_env \<Rightarrow> VMFeaturePoint option \<times> VMFeatureCollector" where
  "collect_feature_point c env =
     (if v_synchronized c
      then
        let t0 = t_start env;
            pmc_data = pmc_counters env;
            t1 = t1_reading c env;
            time_delta = max (1 / 1000000) (t1 - t0);
            system_deltas = compute_proc_stat_deltas (proc_stat0 env) (proc_stat1 env) time_delta (clk_tck env);
            c' = c\<lparr>prev_proc_stat := Some (proc_stat1 env), prev_collection_time := t1\<rparr>;
            aligned_os = compute_os_metrics_from_snapshots (os0 env) (os1 env) time_delta
        in case calculate_derived_features pmc_data aligned_os of
             Inl e \<Rightarrow> (None, c')
           | Inr derived_data \<Rightarrow>
               (Some (make_point t1 system_deltas pmc_data aligned_os derived_data
                        (v_collection_interval c) time_delta (v_vm_hostname c)), c')
      else
        let ts = t_start env;
            current_proc_stat = proc_stat0 env;
            system_deltas =
              (case prev_proc_stat c of
                 None \<Rightarrow> []
               | Some prev \<Rightarrow>
                   if stat_is_empty prev then []
                   else compute_proc_stat_deltas prev current_proc_stat (v_collection_interval c) (clk_tck env));
            c' = c\<lparr>prev_proc_stat := Some current_proc_stat\<rparr>;
            pmc_data = pmc_counters env;
            os_data = legacy_os_data env
        in case calculate_derived_features pmc_data os_data of
             Inl e \<Rightarrow> (None, c')
           | Inr derived_data \<Rightarrow>
               (Some (make_point ts system_deltas pmc_data os_data derived_data
                        (v_collection_interval c) 0 (v_vm_hostname c)), c'))"

section \<open>Concrete mergers\<close>

text \<open>Rows and loaded mergers the theorems below are evaluated on.\<close>

definition mk_feature :: "real \<Rightarrow> feature_row" where
  "mk_feature t = \<lparr>f_timestamp = t, f_fields = []\<rparr>"

definition mk_power :: "real \<Rightarrow> real \<Rightarrow> power_row" where
  "mk_power t w = \<lparr>p_timestamp = t, p_total_cpu_watts_core = Some w, p_total_cpu_watts_package = Some (2 * w),
      p_vm_count = Some 1, p_collection_interval = Some (1 / 10)\<rparr>"

definition loaded_merger :: "real \<Rightarrow> real \<Rightarrow> feature_row list \<Rightarrow> power_row list \<Rightarrow> DatasetMerger" where
  "loaded_merger tol thr vm bm =
     snd (load_bm_power bm (snd (load_vm_features vm (DatasetMerger_init tol thr ''core''))))"

definition scenario_merger :: DatasetMerger where
  "scenario_merger = loaded_merger (1 / 5) 0
     [mk_feature 0, mk_feature 1, mk_feature 2, mk_feature 10]
     [mk_power (1 / 20) 1, mk_power (19 / 20) 1, mk_power (5 / 2) 1]"

definition filtered_merger :: DatasetMerger where
  "filtered_merger = loaded_merger (1 / 5) (1 / 100) [mk_feature 0] [mk_power (1 / 10) (2 / 1000)]"

definition untimed_merger :: DatasetMerger where
  "untimed_merger = loaded_merger (1 / 20) (1 / 100) [mk_feature 0] [mk_power (1 / 10) (2 / 1000)]"

definition cursor_merger :: DatasetMerger where
  "cursor_merger = loaded_merger (1 / 5) 0 [mk_feature 2, mk_feature 50]
     [mk_power 0 1, mk_power 1 1, mk_power 2 1, mk_power 3 1]"

definition labels_only_merger :: DatasetMerger where
  "labels_only_merger = snd (load_bm_power [mk_power 0 1] (DatasetMerger_init (1 / 5) 0 ''core''))"

text \<open>
  What a merged record owes to the tolerance: its recorded difference is the distance of
  the two timestamps, it is within the tolerance, and its label is one of the loaded rows.
\<close>

definition within_tol :: "DatasetMerger \<Rightarrow> merged_point \<Rightarrow> bool" where
  "within_tol m r \<longleftrightarrow>
     time_diff r = \<bar>f_timestamp (vm_features r) - bm_timestamp r\<bar> \<and>
     time_diff r \<le> time_tolerance m \<and>
     (\<exists>p\<in>set (bm_data m). p_timestamp p = bm_timestamp r)"


section \<open>Concrete collectors\<close>

text \<open>
  The state of the \<open>collect_power_data\<close> loop when cycle \<open>k\<close> begins: the loop run on
  the first \<open>k\<close> environments.
\<close>

definition state_before_cycle ::
  "BaremetalPowerCollector \<Rightarrow> real \<Rightarrow> real \<Rightarrow> cycle_env list \<Rightarrow> PowerDataPoint list \<Rightarrow> nat
     \<Rightarrow> collect_state" where
  "state_before_cycle c start_time duration envs data0 k =
     collect_loop c start_time duration (take k envs)
       \<lparr>power_data = data0, collection_count = 0, error_count = 0\<rparr>"

text \<open>What \<open>if data_point: self.power_data.append(data_point)\<close> appends.\<close>

definition opt_list :: "'a option \<Rightarrow> 'a list" where
  "opt_list v = (case v of None \<Rightarrow> [] | Some x \<Rightarrow> [x])"

text \<open>
  A collector with interval 0.1 s and synchronized start at 100, and a run of three
  cycles: the first scrape succeeds, the second fails on every attempt, the third
  succeeds on its second attempt while the clock already reads 103; then the collector
  is stopped.
\<close>

definition anchor_collector :: BaremetalPowerCollector where
  "anchor_collector =
     \<lparr>c_collection_interval = 1 / 10, c_max_retries = 3, c_target_vms = [], c_vm_pattern = None,
      c_sync_start_time = Some 100, c_collection_start_time = None\<rparr>"

definition anchor_vm :: vm_info where
  "anchor_vm = \<lparr>vm_id = ''1'', vm_name = ''fedora40'', zone = ''core'', watts = 1 / 2\<rparr>"

definition anchor_envs :: "cycle_env list" where
  "anchor_envs =
     [\<lparr>active = True, cond_time = 100, current_time = 100 + 3 / 100,
       attempts_of = (\<lambda>k. Response [anchor_vm] [anchor_vm])\<rparr>,
      \<lparr>active = True, cond_time = 100 + 1 / 4, current_time = 100 + 1 / 4,
       attempts_of = (\<lambda>k. RequestException)\<rparr>,
      \<lparr>active = True, cond_time = 103, current_time = 103,
       attempts_of = (\<lambda>k. if k = 0 then RequestException else Response [anchor_vm] [])\<rparr>,
      \<lparr>active = False, cond_time = 104, current_time = 104,
       attempts_of = (\<lambda>k. OtherException)\<rparr>]"

text \<open>
  The delta of the specification's words: \<open>curr - prev\<close> when \<open>curr \<ge> prev\<close>, and 0 when
  the counter was reset.  The deltas of the code are compared with it below.
\<close>

definition spec_delta :: "'a::linordered_idom \<Rightarrow> 'a \<Rightarrow> 'a" where
  "spec_delta prev_val curr_val = (if curr_val \<ge> prev_val then curr_val - prev_val else 0)"

text \<open>The value of a guarded ratio: the quotient under a positive divisor, else 0.\<close>

definition ratio_value :: "(string \<times> int) list \<Rightarrow> string \<Rightarrow> string \<Rightarrow> real" where
  "ratio_value pmc_data num den =
     (if dict_get pmc_data den 0 > 0
      then real_of_int (dict_get pmc_data num 0) / real_of_int (dict_get pmc_data den 0)
      else 0)"

text \<open>
  A synchronized collector with interval 1 s, and one cycle: the counter measurement
  returns after 0.25 s, the snapshots show 30 user and 70 idle ticks, a context-switch
  counter and a sent-bytes counter that were reset, and no cache references or branches.
\<close>

definition busy_collector :: VMFeatureCollector where
  "busy_collector =
     \<lparr>v_collection_interval = 1, v_synchronized = True, v_vm_hostname = ''vm1'',
      prev_proc_stat = None, prev_collection_time = 0\<rparr>"

definition stat_at :: "int \<Rightarrow> int \<Rightarrow> int \<Rightarrow> proc_stat" where
  "stat_at user idle ctxt =
     \<lparr>ps_cpu = Some [(''user'', user), (''nice'', 0), (''system'', 0), (''idle'', idle),
                      (''iowait'', 0), (''irq'', 0), (''softirq'', 0), (''steal'', 0),
                      (''guest'', 0), (''guest_nice'', 0)],
      ps_context_switches = Some ctxt, ps_processes_created = Some 7,
      ps_procs_running = Some 1, ps_procs_blocked = Some 0\<rparr>"

definition snap_at :: "real \<Rightarrow> real \<Rightarrow> int \<Rightarrow> os_snapshot" where
  "snap_at user idle sent =
     \<lparr>os_cpu_times = Some [(''user'', user), (''nice'', 0), (''system'', 0), (''idle'', idle),
                            (''iowait'', 0), (''irq'', 0), (''softirq'', 0), (''steal'', 0)],
      os_disk_io = Some [(''read_bytes'', 0), (''write_bytes'', 0)],
      os_net_io = Some [(''bytes_sent'', sent), (''bytes_recv'', 0)],
      os_memory = Some [(''percent'', 50), (''available_gb'', 2)],
      os_process_count = Some 100,
      os_load_avg = Some [(''la1'', 0), (''la5'', 0), (''la15'', 0)]\<rparr>"

definition busy_env :: feature_env where
  "busy_env =
     \<lparr>t_start = 1000,
      proc_stat0 = stat_at 500 900 40, os0 = snap_at 5 9 3000,
      pmc_counters = [(''cpu_cycles'', 2000), (''instructions'', 3000), (''cache_references'', 0),
                      (''cache_misses'', 5), (''branch_misses'', 4)],
      pmc_elapsed = 1 / 4, wake_lag = 1 / 100,
      proc_stat1 = stat_at 530 970 25, os1 = snap_at (53 / 10) (97 / 10) 1000,
      clk_tck = Some 100, legacy_os_data = []\<rparr>"

text \<open>The same cycle with both snapshots equal: no tick elapsed.\<close>

definition idle_env :: feature_env where
  "idle_env = busy_env\<lparr>proc_stat1 := proc_stat0 busy_env, os1 := os0 busy_env\<rparr>"


text \<open>
  A cycle in which every counter grows: context switches from 40 to 65, processes created
  from 7 to 9, sent bytes from 3000 to 5000, read bytes from 0 to 2 MiB.
\<close>

definition rising_env :: feature_env where
  "rising_env =
     busy_env\<lparr>proc_stat1 := (stat_at 530 970 65)\<lparr>ps_processes_created := Some 9\<rparr>,
              os1 := (snap_at (53 / 10) (97 / 10) 5000)
                       \<lparr>os_disk_io := Some [(''read_bytes'', 2097152), (''write_bytes'', 0)]\<rparr>\<rparr>"

text \<open>
  The condition under which \<open>_compute_proc_stat_deltas\<close> runs its CPU block to the end:
  both snapshots have a key, both have a non-empty \<open>'cpu'\<close> entry, and the ticks per second
  are not zero.
\<close>

definition cpu_block_runs :: "proc_stat \<Rightarrow> proc_stat \<Rightarrow> int option \<Rightarrow> bool" where
  "cpu_block_runs prev_stat curr_stat tck \<longleftrightarrow>
     \<not> stat_is_empty prev_stat \<and> \<not> stat_is_empty curr_stat \<and>
     get_or (ps_cpu prev_stat) [] \<noteq> [] \<and> get_or (ps_cpu curr_stat) [] \<noteq> [] \<and>
     get_or tck 100 \<noteq> 0"

section \<open>Properties of the dataset merger\<close>

text \<open>The unfolding rules that evaluate the merger on concrete rows.\<close>

lemmas merge_eval = loaded_merger_def load_bm_power_def load_vm_features_def DatasetMerger_init_def
  MergeStatistics_init_def mk_feature_def mk_power_def merge_datasets_def run_merge_loop_def
  merge_loop_init_def merge_step_def find_closest_power_point_def below_closest_def get_power_label_def
  get_or_def np_mean_def np_min_def np_max_def produced_def Let_def


subsection \<open>The scan and the loop\<close>

lemma closest_scan_found:
  "closest_scan tol target ps i cp cd ci = (Some p, idx) \<Longrightarrow>
   (\<forall>q. cp = Some q \<longrightarrow> P q) \<Longrightarrow>
   (\<forall>q\<in>set ps. \<bar>p_timestamp q - target\<bar> \<le> tol \<longrightarrow> P q) \<Longrightarrow> P p"
proof (induction ps arbitrary: i cp cd ci)
  case Nil
  then show ?case by simp
next
  case (Cons a ps)
  then show ?case
    by (auto simp: Let_def split: if_splits)
qed

lemma closest_scan_none:
  "\<forall>q\<in>set ps. \<not> \<bar>p_timestamp q - target\<bar> \<le> tol \<Longrightarrow>
   closest_scan tol target ps i cp cd ci = (cp, ci)"
  by (induction ps arbitrary: i) (auto simp: Let_def)

lemma find_closest_found:
  assumes "find_closest_power_point m t k = (Some p, idx)"
  shows "p \<in> set (bm_data m) \<and> \<bar>p_timestamp p - t\<bar> \<le> time_tolerance m"
proof -
  have "\<forall>q\<in>set (drop k (bm_data m)). \<bar>p_timestamp q - t\<bar> \<le> time_tolerance m \<longrightarrow>
          q \<in> set (bm_data m) \<and> \<bar>p_timestamp q - t\<bar> \<le> time_tolerance m"
    by (auto dest: in_set_dropD)
  with assms show ?thesis
    unfolding find_closest_power_point_def
    by (rule_tac closest_scan_found[where P = "\<lambda>q. q \<in> set (bm_data m) \<and> \<bar>p_timestamp q - t\<bar> \<le> time_tolerance m"]) auto
qed

lemma find_closest_none:
  assumes "\<forall>q\<in>set (bm_data m). time_tolerance m < \<bar>p_timestamp q - t\<bar>"
  shows "find_closest_power_point m t k = (None, k)"
proof -
  have "\<forall>q\<in>set (drop k (bm_data m)). \<not> \<bar>p_timestamp q - t\<bar> \<le> time_tolerance m"
    using assms by (auto dest!: in_set_dropD)
  then show ?thesis
    unfolding find_closest_power_point_def by (rule closest_scan_none)
qed


lemma merge_step_cases:
  "merge_step m st v = st \<or>
   (\<exists>r. l_merged_data (merge_step m st v) = l_merged_data st @ [r] \<and> vm_features r = v \<and> within_tol m r)"
proof (cases "find_closest_power_point m (f_timestamp v) (bm_search_start st)")
  case (Pair found idx)
  show ?thesis
  proof (cases found)
    case None
    with Pair show ?thesis by (simp add: merge_step_def)
  next
    case (Some p)
    with Pair find_closest_found[of m "f_timestamp v" "bm_search_start st" p idx]
    have "p \<in> set (bm_data m)" "\<bar>p_timestamp p - f_timestamp v\<bar> \<le> time_tolerance m" by auto
    with Pair Some show ?thesis
      by (auto simp: merge_step_def Let_def within_tol_def abs_minus_commute)
  qed
qed

lemma merge_loop_appends:
  "\<exists>rs. l_merged_data (foldl (merge_step m) st vs) = l_merged_data st @ rs \<and>
        (\<forall>r\<in>set rs. vm_features r \<in> set vs \<and> within_tol m r)"
proof (induction vs arbitrary: st)
  case Nil
  then show ?case by simp
next
  case (Cons v vs)
  from Cons.IH[of "merge_step m st v"] obtain rs where
    rs: "l_merged_data (foldl (merge_step m) (merge_step m st v) vs) = l_merged_data (merge_step m st v) @ rs"
        "\<forall>r\<in>set rs. vm_features r \<in> set vs \<and> within_tol m r" by blast
  from merge_step_cases[of m st v] show ?case
  proof
    assume "merge_step m st v = st"
    with rs show ?thesis by auto
  next
    assume "\<exists>r. l_merged_data (merge_step m st v) = l_merged_data st @ [r] \<and> vm_features r = v \<and> within_tol m r"
    then obtain r where "l_merged_data (merge_step m st v) = l_merged_data st @ [r]" "vm_features r = v" "within_tol m r" by blast
    with rs show ?thesis by (intro exI[of _ "r # rs"]) auto
  qed
qed

lemma produced_props:
  "\<forall>r\<in>set (produced m). vm_features r \<in> set (vm_data m) \<and> within_tol m r"
proof (cases "vm_data m = [] \<or> bm_data m = []")
  case True
  then show ?thesis by (auto simp: produced_def merge_datasets_def)
next
  case False
  from merge_loop_appends[of m "merge_loop_init m" "vm_data m"] obtain rs where
    rs: "l_merged_data (run_merge_loop m) = merged_data m @ rs"
        "\<forall>r\<in>set rs. vm_features r \<in> set (vm_data m) \<and> within_tol m r"
    by (auto simp: run_merge_loop_def merge_loop_init_def)
  with False have "produced m = rs"
    by (simp add: produced_def merge_datasets_def Let_def)
  with rs show ?thesis by simp
qed



lemma merge_step_count:
  "matched_count (merge_step m st v) + length (l_merged_data st) =
   matched_count st + length (l_merged_data (merge_step m st v))"
  by (auto simp: merge_step_def Let_def split: prod.splits option.splits)

lemma merge_loop_count:
  "matched_count (foldl (merge_step m) st vs) + length (l_merged_data st) =
   matched_count st + length (l_merged_data (foldl (merge_step m) st vs))"
proof (induction vs arbitrary: st)
  case Nil
  then show ?case by simp
next
  case (Cons v vs)
  from Cons.IH[of "merge_step m st v"] merge_step_count[of m st v]
  show ?case by simp
qed

lemma merge_loop_prefix:
  "\<exists>rs. l_merged_data (run_merge_loop m) = merged_data m @ rs"
  using merge_loop_appends[of m "merge_loop_init m" "vm_data m"]
  by (auto simp: run_merge_loop_def merge_loop_init_def)

lemma merged_data_after:
  "vm_data m \<noteq> [] \<Longrightarrow> bm_data m \<noteq> [] \<Longrightarrow>
   merged_data (snd (merge_datasets m)) = l_merged_data (run_merge_loop m)"
  by (simp add: merge_datasets_def Let_def)

lemma matched_points_after:
  "vm_data m \<noteq> [] \<Longrightarrow> bm_data m \<noteq> [] \<Longrightarrow>
   matched_points (statistics (snd (merge_datasets m))) = matched_count (run_merge_loop m)"
  by (simp add: merge_datasets_def Let_def)

lemma unmatched_vm_after:
  "vm_data m \<noteq> [] \<Longrightarrow> bm_data m \<noteq> [] \<Longrightarrow>
   unmatched_vm_points (statistics (snd (merge_datasets m))) =
     int (length (vm_data m)) - int (matched_count (run_merge_loop m))"
  by (simp add: merge_datasets_def Let_def)

lemma unmatched_bm_after:
  "vm_data m \<noteq> [] \<Longrightarrow> bm_data m \<noteq> [] \<Longrightarrow>
   unmatched_bm_points (statistics (snd (merge_datasets m))) = int (length (bm_data m))"
  by (simp add: merge_datasets_def Let_def)

lemma matched_count_produced:
  assumes "vm_data m \<noteq> []" "bm_data m \<noteq> []"
  shows "matched_count (run_merge_loop m) = length (produced m)"
proof -
  from merge_loop_prefix[of m] obtain rs where rs: "l_merged_data (run_merge_loop m) = merged_data m @ rs" by blast
  have "matched_count (run_merge_loop m) + length (merged_data m) = length (l_merged_data (run_merge_loop m))"
    using merge_loop_count[of m "merge_loop_init m" "vm_data m"]
    by (simp add: run_merge_loop_def merge_loop_init_def)
  with rs assms show ?thesis
    by (simp add: produced_def merged_data_after)
qed

subsection \<open>Tolerance of the matches\<close>

text \<open>
  Claim C1.  Every record one call of \<open>merge_datasets\<close> appends carries as \<open>time_diff\<close> the
  absolute difference between its feature's timestamp and the timestamp of a loaded label
  row, and that difference is at most the tolerance.  A feature with no label row within
  the tolerance leaves the loop state as it was, and no appended record comes from it.
\<close>

theorem merged_records_within_tolerance:
  "(\<forall>r\<in>set (produced m).
      time_diff r = \<bar>f_timestamp (vm_features r) - bm_timestamp r\<bar> \<and>
      time_diff r \<le> time_tolerance m \<and>
      vm_features r \<in> set (vm_data m) \<and>
      (\<exists>p\<in>set (bm_data m). p_timestamp p = bm_timestamp r)) \<and>
   ((\<forall>p\<in>set (bm_data m). time_tolerance m < \<bar>f_timestamp v - p_timestamp p\<bar>) \<longrightarrow>
      merge_step m st v = st \<and> (\<forall>r\<in>set (produced m). vm_features r \<noteq> v))"
proof (intro conjI impI)
  show "\<forall>r\<in>set (produced m).
      time_diff r = \<bar>f_timestamp (vm_features r) - bm_timestamp r\<bar> \<and>
      time_diff r \<le> time_tolerance m \<and>
      vm_features r \<in> set (vm_data m) \<and>
      (\<exists>p\<in>set (bm_data m). p_timestamp p = bm_timestamp r)"
    using produced_props[of m] by (auto simp: within_tol_def)
next
  assume far: "\<forall>p\<in>set (bm_data m). time_tolerance m < \<bar>f_timestamp v - p_timestamp p\<bar>"
  then have far': "\<forall>q\<in>set (bm_data m). time_tolerance m < \<bar>p_timestamp q - f_timestamp v\<bar>"
    by (simp add: abs_minus_commute)
  show "merge_step m st v = st"
    using find_closest_none[OF far', of "bm_search_start st"] by (simp add: merge_step_def)
  show "\<forall>r\<in>set (produced m). vm_features r \<noteq> v"
  proof
    fix r assume "r \<in> set (produced m)"
    with produced_props[of m] have "within_tol m r" by blast
    then obtain p where "p \<in> set (bm_data m)" "p_timestamp p = bm_timestamp r"
      "\<bar>f_timestamp (vm_features r) - p_timestamp p\<bar> \<le> time_tolerance m"
      by (auto simp: within_tol_def)
    with far show "vm_features r \<noteq> v" by fastforce
  qed
qed

text \<open>
  Claim C1 on the scenario of the specification: features at 0, 1, 2 and 10, labels at
  0.05, 0.95 and 2.5, tolerance 0.2.  Two records are appended, both within 0.2, and none
  for the feature at 2, which has no label in reach.
\<close>

theorem merged_records_within_tolerance_witness:
  "map time_diff (produced scenario_merger) = [1 / 20, 1 / 20] \<and>
   time_tolerance scenario_merger = 1 / 5 \<and>
   list_all (\<lambda>p. time_tolerance scenario_merger < \<bar>f_timestamp (mk_feature 2) - p_timestamp p\<bar>)
     (bm_data scenario_merger) \<and>
   merge_step scenario_merger (merge_loop_init scenario_merger) (mk_feature 2)
     = merge_loop_init scenario_merger \<and>
   mk_feature 2 \<notin> vm_features ` set (produced scenario_merger)"
proof -
  have far: "\<forall>p\<in>set (bm_data scenario_merger).
      time_tolerance scenario_merger < \<bar>f_timestamp (mk_feature 2) - p_timestamp p\<bar>"
    by (simp add: scenario_merger_def merge_eval)
  have diffs: "map time_diff (produced scenario_merger) = [1 / 20, 1 / 20]"
    by (simp add: scenario_merger_def merge_eval)
  have tol: "time_tolerance scenario_merger = 1 / 5"
    by (simp add: scenario_merger_def merge_eval)
  from merged_records_within_tolerance
         [of scenario_merger "mk_feature 2" "merge_loop_init scenario_merger"] far
  have "merge_step scenario_merger (merge_loop_init scenario_merger) (mk_feature 2)
          = merge_loop_init scenario_merger"
    and "\<forall>r\<in>set (produced scenario_merger). vm_features r \<noteq> mk_feature 2"
    by blast+
  with far diffs tol show ?thesis
    by (auto simp: list_all_iff)
qed

subsection \<open>Features filtered by value\<close>

text \<open>
  Claim C2, as stated, fails.  With noise floor 0.01 and a label of 0.002 W at distance
  0.1, the feature has a temporal match under tolerance 0.2 and none under tolerance
  0.05; in the first run it is dropped and counted in \<open>unmatched_vm_points\<close>, and the
  statistics of the two runs are equal: nothing records that the first feature was
  filtered by value.
\<close>

theorem filtered_counted_with_unmatched_counterexample:
  "fst (find_closest_power_point filtered_merger 0 0) \<noteq> None \<and>
   fst (find_closest_power_point untimed_merger 0 0) = None \<and>
   produced filtered_merger = [] \<and>
   unmatched_vm_points (statistics (snd (merge_datasets filtered_merger))) = 1 \<and>
   statistics (snd (merge_datasets filtered_merger)) = statistics (snd (merge_datasets untimed_merger))"
  by (simp add: filtered_merger_def untimed_merger_def merge_eval)

text \<open>
  Claim C2, amended.  A feature whose temporal match has a wattage below the noise floor
  is dropped: the loop state stays as it was, exactly as for a feature with no temporal
  match.  After a merge \<open>matched_points\<close> counts the appended records and
  \<open>unmatched_vm_points\<close> counts every other feature, filtered or not.
\<close>

theorem filtered_feature_dropped:
  "(find_closest_power_point m (f_timestamp v) (bm_search_start st) = (Some p, idx) \<and>
      get_power_label m p < min_power_threshold m \<longrightarrow> merge_step m st v = st) \<and>
   (find_closest_power_point m (f_timestamp v) (bm_search_start st) = (None, idx) \<longrightarrow>
      merge_step m st v = st) \<and>
   (vm_data m \<noteq> [] \<and> bm_data m \<noteq> [] \<longrightarrow>
      matched_points (statistics (snd (merge_datasets m))) = length (produced m) \<and>
      unmatched_vm_points (statistics (snd (merge_datasets m))) =
        int (length (vm_data m)) - int (length (produced m)))"
  using matched_count_produced[of m]
  by (auto simp: merge_step_def matched_points_after unmatched_vm_after)

text \<open>
  Claim C2, amended, on the scenario: noise floor 0.01, matched label 0.002 W.  The match
  exists, the feature is dropped, and the statistics show 0 matched and 1 unmatched.
\<close>

theorem filtered_feature_dropped_witness:
  "find_closest_power_point filtered_merger (f_timestamp (mk_feature 0)) (bm_search_start (merge_loop_init filtered_merger))
      = (Some (mk_power (1 / 10) (2 / 1000)), 0) \<and>
   get_power_label filtered_merger (mk_power (1 / 10) (2 / 1000)) < min_power_threshold filtered_merger \<and>
   merge_step filtered_merger (merge_loop_init filtered_merger) (mk_feature 0) = merge_loop_init filtered_merger \<and>
   vm_data filtered_merger \<noteq> [] \<and> bm_data filtered_merger \<noteq> [] \<and>
   matched_points (statistics (snd (merge_datasets filtered_merger))) = 0 \<and>
   unmatched_vm_points (statistics (snd (merge_datasets filtered_merger))) = 1"
proof -
  have a: "find_closest_power_point filtered_merger (f_timestamp (mk_feature 0)) (bm_search_start (merge_loop_init filtered_merger))
      = (Some (mk_power (1 / 10) (2 / 1000)), 0)"
    by (simp add: filtered_merger_def merge_eval)
  have b: "get_power_label filtered_merger (mk_power (1 / 10) (2 / 1000)) < min_power_threshold filtered_merger"
    by (simp add: filtered_merger_def merge_eval)
  have c: "vm_data filtered_merger \<noteq> []" "bm_data filtered_merger \<noteq> []"
    by (simp_all add: filtered_merger_def merge_eval)
  have d: "produced filtered_merger = []"
    by (simp add: filtered_merger_def merge_eval)
  have e: "length (vm_data filtered_merger) = 1"
    by (simp add: filtered_merger_def merge_eval)
  from filtered_feature_dropped[of filtered_merger "mk_feature 0" "merge_loop_init filtered_merger"
      "mk_power (1 / 10) (2 / 1000)" 0] a b c d e
  show ?thesis by simp
qed

subsection \<open>The search cursor\<close>

text \<open>
  Claim C3, as stated, fails.  Labels at 0, 1, 2, 3 and features at 2 and 50: the first
  feature matches index 2 and sets the cursor to 1; the second has no match, the search
  returns index 1, and the cursor stays 1 instead of becoming \<open>max(0, 1 - 1) = 0\<close>.
\<close>

theorem cursor_kept_without_match_counterexample:
  "bm_search_start (merge_step cursor_merger (merge_loop_init cursor_merger) (mk_feature 2)) = 1 \<and>
   find_closest_power_point cursor_merger (f_timestamp (mk_feature 50)) 1 = (None, 1) \<and>
   bm_search_start (merge_step cursor_merger
       (merge_step cursor_merger (merge_loop_init cursor_merger) (mk_feature 2)) (mk_feature 50)) = 1 \<and>
   nat (max 0 (int 1 - 1)) = 0"
  by (simp add: cursor_merger_def merge_eval)

text \<open>
  Claim C3, amended.  The cursor becomes \<open>max(0, search_idx - 1)\<close> when the feature is
  matched and its label passes the noise floor; with no temporal match, or a match
  filtered by value, the cursor stays where it was.
\<close>

theorem cursor_update:
  "bm_search_start (merge_step m st v) =
     (case find_closest_power_point m (f_timestamp v) (bm_search_start st) of
        (None, search_idx) \<Rightarrow> bm_search_start st
      | (Some power_point, search_idx) \<Rightarrow>
          if get_power_label m power_point \<ge> min_power_threshold m
          then nat (max 0 (int search_idx - 1))
          else bm_search_start st)"
  by (simp add: merge_step_def Let_def split: prod.splits option.splits)

text \<open>
  Claim C3, amended, on the same rows: the feature at 2 is matched at index 2 and the
  cursor becomes \<open>max(0, 2 - 1)\<close>.
\<close>

theorem cursor_update_witness:
  "bm_search_start (merge_step cursor_merger (merge_loop_init cursor_merger) (mk_feature 2)) = nat (max 0 (int 2 - 1))"
proof -
  have "find_closest_power_point cursor_merger (f_timestamp (mk_feature 2)) (bm_search_start (merge_loop_init cursor_merger))
          = (Some (mk_power 2 1), 2)"
    by (simp add: cursor_merger_def merge_eval)
  moreover have "get_power_label cursor_merger (mk_power 2 1) \<ge> min_power_threshold cursor_merger"
    by (simp add: cursor_merger_def merge_eval)
  ultimately show ?thesis
    using cursor_update[of cursor_merger "merge_loop_init cursor_merger" "mk_feature 2"] by simp
qed

subsection \<open>Running the merge again\<close>

text \<open>
  Claim C9.  \<open>merge_datasets\<close> resets its counters on every call and never
  \<open>self.merged_data\<close>: on the merger of the scenario the first call leaves 2 merged
  records, a second call on the same inputs leaves 4, while the statistics still count 2
  matched points.
\<close>

theorem rerun_appends_again:
  "length (merged_data (snd (merge_datasets scenario_merger))) = 2 \<and>
   length (merged_data (snd (merge_datasets (snd (merge_datasets scenario_merger))))) = 4 \<and>
   matched_points (statistics (snd (merge_datasets (snd (merge_datasets scenario_merger))))) = 2"
  by (simp add: scenario_merger_def merge_eval)

subsection \<open>The count of unmatched labels\<close>

text \<open>
  Claim C10, as stated, fails.  A merger with one loaded label row and no feature rows:
  the call returns \<open>False\<close> at its guard and \<open>unmatched_bm_points\<close> is still 0, not 1.
\<close>

theorem unmatched_bm_untouched_counterexample:
  "merge_datasets labels_only_merger = (False, labels_only_merger) \<and>
   length (bm_data labels_only_merger) = 1 \<and>
   unmatched_bm_points (statistics (snd (merge_datasets labels_only_merger))) = 0"
  by (simp add: labels_only_merger_def merge_eval)

text \<open>
  Claim C10, amended.  After a call with both inputs loaded, \<open>unmatched_bm_points\<close> is the
  number of loaded label rows, whatever was matched; a call with an input missing returns
  \<open>False\<close> and changes nothing.
\<close>

theorem unmatched_bm_is_label_count:
  "(vm_data m \<noteq> [] \<and> bm_data m \<noteq> [] \<longrightarrow>
      unmatched_bm_points (statistics (snd (merge_datasets m))) = int (length (bm_data m))) \<and>
   (vm_data m = [] \<or> bm_data m = [] \<longrightarrow> merge_datasets m = (False, m))"
  by (simp add: unmatched_bm_after) (simp add: merge_datasets_def)

text \<open>
  Claim C10, amended, on the scenario: 2 of the 3 labels are matched and
  \<open>unmatched_bm_points\<close> is 3; without feature rows the call changes nothing.
\<close>

theorem unmatched_bm_is_label_count_witness:
  "vm_data scenario_merger \<noteq> [] \<and> bm_data scenario_merger \<noteq> [] \<and>
   matched_points (statistics (snd (merge_datasets scenario_merger))) = 2 \<and>
   unmatched_bm_points (statistics (snd (merge_datasets scenario_merger))) = 3 \<and>
   vm_data labels_only_merger = [] \<and> merge_datasets labels_only_merger = (False, labels_only_merger)"
proof -
  have a: "vm_data scenario_merger \<noteq> []" "bm_data scenario_merger \<noteq> []" "length (bm_data scenario_merger) = 3"
    by (simp_all add: scenario_merger_def merge_eval)
  have b: "matched_points (statistics (snd (merge_datasets scenario_merger))) = 2"
    by (simp add: scenario_merger_def merge_eval)
  have c: "vm_data labels_only_merger = []"
    by (simp add: labels_only_merger_def merge_eval)
  from unmatched_bm_is_label_count[of scenario_merger] unmatched_bm_is_label_count[of labels_only_merger] a b c
  show ?thesis by simp
qed

section \<open>Properties of the baremetal power collector\<close>

subsection \<open>The loop and its samples\<close>

lemma make_data_point_stamp:
  "make_data_point c t core package = Some dp \<Longrightarrow>
   timestamp_absolute dp = t \<and> (\<exists>cs. c_collection_start_time c = Some cs \<and> timestamp dp = t - cs)"
  by (auto simp: make_data_point_def Let_def split: option.splits)

lemma retry_loop_stamp:
  "retry_loop c t a k n = Some dp \<Longrightarrow>
   timestamp_absolute dp = t \<and> (\<exists>cs. c_collection_start_time c = Some cs \<and> timestamp dp = t - cs)"
proof (induction n arbitrary: k)
  case 0
  then show ?case by simp
next
  case (Suc n)
  then show ?case
    by (auto split: attempt.splits if_splits dest: make_data_point_stamp)
qed

lemma collect_stamp:
  "collect_power_metrics_with_timestamp c t a = Some dp \<Longrightarrow>
   timestamp_absolute dp = t \<and> (\<exists>cs. c_collection_start_time c = Some cs \<and> timestamp dp = t - cs)"
  unfolding collect_power_metrics_with_timestamp_def by (rule retry_loop_stamp)

lemma collect_cycle_count:
  "collection_count (collect_cycle c start e s) = Suc (collection_count s)"
  by (simp add: collect_cycle_def Let_def split: option.splits)

lemma collect_cycle_data:
  "power_data (collect_cycle c start e s) =
     power_data s @
       opt_list (collect_power_metrics_with_timestamp c (target_time_of c start (collection_count s)) (attempts_of e))"
  by (simp add: collect_cycle_def opt_list_def Let_def split: option.splits)

lemma cycles_run_Cons:
  "cycles_run start dur (e # es) = (if loop_condition start dur e then Suc (cycles_run start dur es) else 0)"
  by (simp add: cycles_run_def)

lemma collect_loop_count:
  "collection_count (collect_loop c start dur envs s) = collection_count s + cycles_run start dur envs"
  by (induction envs arbitrary: s) (simp_all add: cycles_run_def collect_cycle_count)

lemma cycles_run_take:
  "k \<le> cycles_run start dur envs \<Longrightarrow> cycles_run start dur (take k envs) = k"
proof (induction envs arbitrary: k)
  case Nil
  then show ?case by (simp add: cycles_run_def)
next
  case (Cons e es)
  then show ?case
    by (cases k) (auto simp: cycles_run_Cons cycles_run_def split: if_splits)
qed

lemma upt_shift: "[0..<Suc n] = 0 # map Suc [0..<n]"
  by (simp add: upt_conv_Cons map_Suc_upt del: upt_Suc)

lemma collect_loop_data:
  "power_data (collect_loop c start dur envs s) =
     power_data s @
       concat (map
         (\<lambda>j. opt_list (collect_power_metrics_with_timestamp c
                 (target_time_of c start (collection_count s + j)) (attempts_of (envs ! j))))
         [0..<cycles_run start dur envs])"
proof (induction envs arbitrary: s)
  case Nil
  then show ?case by (simp add: cycles_run_def)
next
  case (Cons e es)
  show ?case
  proof (cases "loop_condition start dur e")
    case False
    then show ?thesis by (simp add: cycles_run_Cons)
  next
    case True
    have "power_data (collect_loop c start dur (e # es) s) =
          power_data (collect_loop c start dur es (collect_cycle c start e s))"
      using True by simp
    also have "\<dots> = power_data (collect_cycle c start e s) @
        concat (map
         (\<lambda>j. opt_list (collect_power_metrics_with_timestamp c
                 (target_time_of c start (Suc (collection_count s) + j)) (attempts_of (es ! j))))
         [0..<cycles_run start dur es])"
      by (simp add: Cons.IH collect_cycle_count)
    finally show ?thesis
      using True
      by (simp add: cycles_run_Cons collect_cycle_data upt_shift o_def del: upt_Suc)
  qed
qed

lemma wait_for_sync_start_fields:
  "wait_for_sync_start c0 now = (start_time, c) \<Longrightarrow>
   c_collection_start_time c = Some start_time \<and> c_collection_interval c = c_collection_interval c0"
  by (auto simp: wait_for_sync_start_def Let_def)

lemma collect_power_data_eq:
  assumes "wait_for_sync_start c0 now = (start_time, c)"
  shows "collect_power_data c0 data0 duration now envs =
     data0 @ concat (map
       (\<lambda>k. opt_list (collect_power_metrics_with_timestamp c
                (start_time + real k * c_collection_interval c0) (attempts_of (envs ! k))))
       [0..<cycles_run start_time duration envs])"
  using assms wait_for_sync_start_fields[OF assms]
  by (simp add: collect_power_data_def collect_loop_data target_time_of_def)

subsection \<open>Schedule anchoring\<close>

text \<open>
  Claim C4.  Let \<open>start_time\<close> be what \<open>_wait_for_sync_start\<close> returns.  When cycle \<open>k\<close>
  begins, \<open>collection_count\<close> is \<open>k\<close>, so the target time the cycle computes is
  \<open>start_time + k * collection_interval\<close>, whatever the clock read and whatever the earlier
  scrapes returned.  The samples appended are those of the cycles whose scrape succeeded,
  each built from its cycle's target time: its absolute timestamp is the target time
  and its relative timestamp is \<open>k * collection_interval\<close>; no clock reading enters.
\<close>

theorem cycle_target_time_anchored:
  assumes "wait_for_sync_start c0 now = (start_time, c)"
  shows
  "(k \<le> cycles_run start_time duration envs \<longrightarrow>
      target_time_of c start_time
        (collection_count (state_before_cycle c start_time duration envs data0 k))
        = start_time + real k * c_collection_interval c0) \<and>
   collect_power_data c0 data0 duration now envs =
     data0 @ concat (map
       (\<lambda>k. opt_list (collect_power_metrics_with_timestamp c
                (start_time + real k * c_collection_interval c0) (attempts_of (envs ! k))))
       [0..<cycles_run start_time duration envs]) \<and>
   (\<forall>dp\<in>set (drop (length data0) (collect_power_data c0 data0 duration now envs)).
      \<exists>k<cycles_run start_time duration envs.
        timestamp_absolute dp = start_time + real k * c_collection_interval c0 \<and>
        timestamp dp = real k * c_collection_interval c0)"
proof (intro conjI impI)
  assume "k \<le> cycles_run start_time duration envs"
  then show "target_time_of c start_time
        (collection_count (state_before_cycle c start_time duration envs data0 k))
        = start_time + real k * c_collection_interval c0"
    using wait_for_sync_start_fields[OF assms]
    by (simp add: state_before_cycle_def collect_loop_count cycles_run_take target_time_of_def)
next
  show "collect_power_data c0 data0 duration now envs =
     data0 @ concat (map
       (\<lambda>k. opt_list (collect_power_metrics_with_timestamp c
                (start_time + real k * c_collection_interval c0) (attempts_of (envs ! k))))
       [0..<cycles_run start_time duration envs])"
    by (rule collect_power_data_eq[OF assms])
next
  show "\<forall>dp\<in>set (drop (length data0) (collect_power_data c0 data0 duration now envs)).
      \<exists>k<cycles_run start_time duration envs.
        timestamp_absolute dp = start_time + real k * c_collection_interval c0 \<and>
        timestamp dp = real k * c_collection_interval c0"
  proof
    fix dp
    assume "dp \<in> set (drop (length data0) (collect_power_data c0 data0 duration now envs))"
    then obtain k where k: "k < cycles_run start_time duration envs"
      "collect_power_metrics_with_timestamp c
         (start_time + real k * c_collection_interval c0) (attempts_of (envs ! k)) = Some dp"
      by (auto simp: collect_power_data_eq[OF assms] opt_list_def split: option.splits)
    from collect_stamp[OF k(2)] wait_for_sync_start_fields[OF assms] k(1)
    show "\<exists>k<cycles_run start_time duration envs.
        timestamp_absolute dp = start_time + real k * c_collection_interval c0 \<and>
        timestamp dp = real k * c_collection_interval c0"
      by auto
  qed
qed

text \<open>The unfolding rules that evaluate the collector on the concrete run.\<close>

lemmas collect_eval = anchor_collector_def anchor_envs_def anchor_vm_def wait_for_sync_start_def
  cycles_run_def loop_condition_def collect_power_metrics_with_timestamp_def make_data_point_def
  filter_vms_def opt_list_def state_before_cycle_def collect_cycle_def target_time_of_def Let_def

text \<open>
  Claim C4 on the concrete run: three cycles are taken; cycle 2 begins when the clock
  reads 103 and still has target time 100.2; the two samples carry 100 and 100.2 as
  absolute and 0 and 0.2 as relative timestamps.
\<close>

theorem cycle_target_time_anchored_witness:
  "wait_for_sync_start anchor_collector 99
     = (100, anchor_collector\<lparr>c_collection_start_time := Some 100\<rparr>) \<and>
   cycles_run 100 10 anchor_envs = 3 \<and>
   target_time_of (anchor_collector\<lparr>c_collection_start_time := Some 100\<rparr>) 100
     (collection_count
        (state_before_cycle (anchor_collector\<lparr>c_collection_start_time := Some 100\<rparr>) 100 10 anchor_envs [] 2))
     = 100 + 2 * (1 / 10) \<and>
   map timestamp_absolute (collect_power_data anchor_collector [] 10 99 anchor_envs)
     = [100, 100 + 2 * (1 / 10)] \<and>
   map timestamp (collect_power_data anchor_collector [] 10 99 anchor_envs) = [0, 2 * (1 / 10)]"
proof -
  have w: "wait_for_sync_start anchor_collector 99
     = (100, anchor_collector\<lparr>c_collection_start_time := Some 100\<rparr>)"
    by (simp add: collect_eval)
  have n: "cycles_run 100 10 anchor_envs = 3"
    by (simp add: collect_eval)
  have i: "c_collection_interval anchor_collector = 1 / 10"
    by (simp add: collect_eval)
  note t = cycle_target_time_anchored[OF w, of 2 10 anchor_envs "[]"]
  from t n i have one: "target_time_of (anchor_collector\<lparr>c_collection_start_time := Some 100\<rparr>) 100
     (collection_count
        (state_before_cycle (anchor_collector\<lparr>c_collection_start_time := Some 100\<rparr>) 100 10 anchor_envs [] 2))
     = 100 + 2 * (1 / 10)"
    by simp
  from t n have data: "collect_power_data anchor_collector [] 10 99 anchor_envs =
     concat (map
       (\<lambda>k. opt_list (collect_power_metrics_with_timestamp (anchor_collector\<lparr>c_collection_start_time := Some 100\<rparr>)
                (100 + real k * c_collection_interval anchor_collector) (attempts_of (anchor_envs ! k))))
       [0..<3])"
    by simp
  have u: "[0..<3] = [0, 1, 2]"
    by (simp add: eval_nat_numeral)
  have two: "map timestamp_absolute (collect_power_data anchor_collector [] 10 99 anchor_envs)
     = [100, 100 + 2 * (1 / 10)]"
    unfolding data u by (simp add: collect_eval eval_nat_numeral)
  have three: "map timestamp (collect_power_data anchor_collector [] 10 99 anchor_envs) = [0, 2 * (1 / 10)]"
    unfolding data u by (simp add: collect_eval eval_nat_numeral)
  from w n one two three show ?thesis by blast
qed

section \<open>Properties of the VM feature collector\<close>

subsection \<open>Deltas, ratios and the clock\<close>

lemma guarded_ratio_eq: "guarded_ratio pmc_data num den = Inr (ratio_value pmc_data num den)"
  by (auto simp: guarded_ratio_def ratio_value_def dict_index_def dict_get_def py_truediv_def
           split: option.splits)

lemma calculate_derived_features_eq:
  "calculate_derived_features pmc_data os_data =
     Inr [(''instructions_per_cycle'', ratio_value pmc_data ''instructions'' ''cpu_cycles''),
          (''cache_miss_ratio'', ratio_value pmc_data ''cache_misses'' ''cache_references''),
          (''branch_miss_ratio'', ratio_value pmc_data ''branch_misses'' ''branches''),
          (''cpu_efficiency'',
             (dict_get os_data ''cpu_user_time'' 0 + dict_get os_data ''cpu_system_time'' 0) / 100)]"
  by (simp add: calculate_derived_features_def guarded_ratio_eq)

lemma collect_feature_point_sync:
  "v_synchronized c \<Longrightarrow>
   fst (collect_feature_point c env) =
     Some (make_point (t1_reading c env)
       (compute_proc_stat_deltas (proc_stat0 env) (proc_stat1 env)
          (max (1 / 1000000) (t1_reading c env - t_start env)) (clk_tck env))
       (pmc_counters env)
       (compute_os_metrics_from_snapshots (os0 env) (os1 env)
          (max (1 / 1000000) (t1_reading c env - t_start env)))
       [(''instructions_per_cycle'', ratio_value (pmc_counters env) ''instructions'' ''cpu_cycles''),
        (''cache_miss_ratio'', ratio_value (pmc_counters env) ''cache_misses'' ''cache_references''),
        (''branch_miss_ratio'', ratio_value (pmc_counters env) ''branch_misses'' ''branches''),
        (''cpu_efficiency'',
           (dict_get (compute_os_metrics_from_snapshots (os0 env) (os1 env)
               (max (1 / 1000000) (t1_reading c env - t_start env))) ''cpu_user_time'' 0
            + dict_get (compute_os_metrics_from_snapshots (os0 env) (os1 env)
               (max (1 / 1000000) (t1_reading c env - t_start env))) ''cpu_system_time'' 0) / 100)]
       (v_collection_interval c)
       (max (1 / 1000000) (t1_reading c env - t_start env))
       (v_vm_hostname c))"
  by (simp add: collect_feature_point_def Let_def calculate_derived_features_eq)

lemma derived_of_point:
  "fst (collect_feature_point c env) = Some pt \<Longrightarrow>
   instructions_per_cycle pt = ratio_value (pmc_counters env) ''instructions'' ''cpu_cycles'' \<and>
   cache_miss_ratio pt = ratio_value (pmc_counters env) ''cache_misses'' ''cache_references'' \<and>
   branch_miss_ratio pt = ratio_value (pmc_counters env) ''branch_misses'' ''branches''"
  by (auto simp: collect_feature_point_def Let_def calculate_derived_features_eq make_point_def
        dict_get_def split: if_splits)

lemma t1_reading_ge:
  "0 \<le> wake_lag env \<Longrightarrow> v_collection_interval c \<le> t1_reading c env - t_start env"
  by (simp add: t1_reading_def time_sleep_def Let_def)

lemma max_0_spec_delta: "max 0 (curr_val - prev_val) = spec_delta prev_val curr_val"
  by (simp add: spec_delta_def max_def)

lemma spec_delta_nonneg: "0 \<le> spec_delta prev_val curr_val"
  by (simp add: spec_delta_def)

lemma delta_jiffies_spec:
  "delta_jiffies prev_cpu curr_cpu field = spec_delta (dict_get prev_cpu field 0) (dict_get curr_cpu field 0)"
  by (simp add: delta_jiffies_def Let_def max_0_spec_delta)

lemma os_deltas_spec:
  "os_deltas snap0 snap1 k =
     spec_delta (dict_get (get_or (os_cpu_times snap0) []) k 0) (dict_get (get_or (os_cpu_times snap1) []) k 0)"
  by (simp add: os_deltas_def Let_def max_0_spec_delta)

lemma byte_delta_spec:
  "byte_delta c0 c1 k = spec_delta (dict_get (get_or c0 []) k 0) (dict_get (get_or c1 []) k 0)"
  by (simp add: byte_delta_def max_0_spec_delta)

lemma cpu_entries_keys:
  "cpu_entries prev_cpu curr_cpu jps = Inr entries \<Longrightarrow>
   map_of entries ''sys_context_switches'' = None \<and> map_of entries ''sys_processes_created'' = None"
  by (auto simp: cpu_entries_def Let_def cpu_keys_def split: if_splits)

lemma proc_stat_counter_deltas:
  assumes "compute_proc_stat_deltas prev_stat curr_stat time_delta tck \<noteq> []"
  shows "dict_get (compute_proc_stat_deltas prev_stat curr_stat time_delta tck) ''sys_context_switches'' 0
           = real_of_int (spec_delta (get_or (ps_context_switches prev_stat) 0)
                                     (get_or (ps_context_switches curr_stat) 0))"
    and "dict_get (compute_proc_stat_deltas prev_stat curr_stat time_delta tck) ''sys_processes_created'' 0
           = real_of_int (spec_delta (get_or (ps_processes_created prev_stat) 0)
                                     (get_or (ps_processes_created curr_stat) 0))"
  using assms
  by (auto simp: compute_proc_stat_deltas_def Let_def dict_get_def map_add_def max_0_spec_delta
        dest!: cpu_entries_keys split: if_splits sum.splits)

lemma percent_of_fraction:
  fixes r :: real
  assumes "0 \<le> r" "r \<le> 1"
  shows "0 \<le> r * 100 \<and> r * 100 \<le> 100" "0 \<le> 100 - r * 100 \<and> 100 - r * 100 \<le> 100"
  using assms by simp_all

lemma os_metrics_entries:
  "dict_get (compute_os_metrics_from_snapshots snap0 snap1 td) ''cpu_idle'' 0
     = (os_deltas snap0 snap1 ''idle'' / os_total snap0 snap1 td) * 100"
  "dict_get (compute_os_metrics_from_snapshots snap0 snap1 td) ''cpu_utilization'' 0
     = 100 - (os_deltas snap0 snap1 ''idle'' / os_total snap0 snap1 td) * 100"
  "dict_get (compute_os_metrics_from_snapshots snap0 snap1 td) ''network_bytes_sent'' 0
     = real_of_int (byte_delta (os_net_io snap0) (os_net_io snap1) ''bytes_sent'')"
  "dict_get (compute_os_metrics_from_snapshots snap0 snap1 td) ''network_bytes_recv'' 0
     = real_of_int (byte_delta (os_net_io snap0) (os_net_io snap1) ''bytes_recv'')"
  "dict_get (compute_os_metrics_from_snapshots snap0 snap1 td) ''disk_io_read_mb'' 0
     = real_of_int (byte_delta (os_disk_io snap0) (os_disk_io snap1) ''read_bytes'') / (1024 * 1024)"
  "dict_get (compute_os_metrics_from_snapshots snap0 snap1 td) ''disk_io_write_mb'' 0
     = real_of_int (byte_delta (os_disk_io snap0) (os_disk_io snap1) ''write_bytes'') / (1024 * 1024)"
  by (simp_all add: compute_os_metrics_from_snapshots_def Let_def cpu_keys_def metrics_map_def dict_get_def)

lemma os_deltas_nonneg: "0 \<le> os_deltas snap0 snap1 k"
  by (simp add: os_deltas_def Let_def)

lemma delta_jiffies_nonneg: "0 \<le> delta_jiffies prev_cpu curr_cpu field"
  by (simp add: delta_jiffies_def Let_def)

lemma os_sum_expand:
  "sum_list (map (os_deltas snap0 snap1) cpu_keys) =
     os_deltas snap0 snap1 ''user'' + os_deltas snap0 snap1 ''nice'' + os_deltas snap0 snap1 ''system'' +
     os_deltas snap0 snap1 ''idle'' + os_deltas snap0 snap1 ''iowait'' + os_deltas snap0 snap1 ''irq'' +
     os_deltas snap0 snap1 ''softirq'' + os_deltas snap0 snap1 ''steal''"
  by (simp add: cpu_keys_def)

lemma os_idle_le_sum:
  "os_deltas snap0 snap1 ''idle'' \<le> sum_list (map (os_deltas snap0 snap1) cpu_keys)"
  using os_deltas_nonneg[of snap0 snap1 "''user''"] os_deltas_nonneg[of snap0 snap1 "''nice''"]
    os_deltas_nonneg[of snap0 snap1 "''system''"] os_deltas_nonneg[of snap0 snap1 "''iowait''"]
    os_deltas_nonneg[of snap0 snap1 "''irq''"] os_deltas_nonneg[of snap0 snap1 "''softirq''"]
    os_deltas_nonneg[of snap0 snap1 "''steal''"]
  unfolding os_sum_expand by linarith

lemma os_cpu_utilization_range:
  "0 \<le> dict_get (compute_os_metrics_from_snapshots snap0 snap1 td) ''cpu_utilization'' 0 \<and>
   dict_get (compute_os_metrics_from_snapshots snap0 snap1 td) ''cpu_utilization'' 0 \<le> 100"
proof -
  let ?i = "os_deltas snap0 snap1 ''idle''"
  let ?s = "sum_list (map (os_deltas snap0 snap1) cpu_keys)"
  let ?t = "os_total snap0 snap1 td"
  have i0: "0 \<le> ?i" by (rule os_deltas_nonneg)
  have le: "?i \<le> ?s" by (rule os_idle_le_sum)
  have frac: "0 \<le> ?i / ?t \<and> ?i / ?t \<le> 1"
  proof (cases "?s = 0")
    case True
    with i0 le have "?i = 0" by linarith
    then show ?thesis by simp
  next
    case False
    then have t: "?t = ?s" by (simp add: os_total_def py_or_def)
    from False i0 le have "0 < ?s" by linarith
    with i0 le t show ?thesis by simp
  qed
  show ?thesis
    unfolding os_metrics_entries by (rule percent_of_fraction(2)[OF conjunct1[OF frac] conjunct2[OF frac]])
qed

lemma os_cpu_utilization_no_ticks:
  "sum_list (map (os_deltas snap0 snap1) cpu_keys) = 0 \<Longrightarrow>
   dict_get (compute_os_metrics_from_snapshots snap0 snap1 td) ''cpu_utilization'' 0 = 100"
proof -
  assume z: "sum_list (map (os_deltas snap0 snap1) cpu_keys) = 0"
  from os_idle_le_sum[of snap0 snap1] os_deltas_nonneg[of snap0 snap1 "''idle''"] z
  have "os_deltas snap0 snap1 ''idle'' = 0" by linarith
  then show ?thesis by (simp add: os_metrics_entries)
qed

lemma total_delta_expand:
  "total_delta prev_cpu curr_cpu =
     delta_jiffies prev_cpu curr_cpu ''user'' + delta_jiffies prev_cpu curr_cpu ''nice'' +
     delta_jiffies prev_cpu curr_cpu ''system'' + delta_jiffies prev_cpu curr_cpu ''idle'' +
     delta_jiffies prev_cpu curr_cpu ''iowait'' + delta_jiffies prev_cpu curr_cpu ''irq'' +
     delta_jiffies prev_cpu curr_cpu ''softirq'' + delta_jiffies prev_cpu curr_cpu ''steal''"
  by (simp add: total_delta_def cpu_keys_def)

lemma idle_le_total: "delta_jiffies prev_cpu curr_cpu ''idle'' \<le> total_delta prev_cpu curr_cpu"
  using delta_jiffies_nonneg[of prev_cpu curr_cpu "''user''"] delta_jiffies_nonneg[of prev_cpu curr_cpu "''nice''"]
    delta_jiffies_nonneg[of prev_cpu curr_cpu "''system''"] delta_jiffies_nonneg[of prev_cpu curr_cpu "''iowait''"]
    delta_jiffies_nonneg[of prev_cpu curr_cpu "''irq''"] delta_jiffies_nonneg[of prev_cpu curr_cpu "''softirq''"]
    delta_jiffies_nonneg[of prev_cpu curr_cpu "''steal''"]
  unfolding total_delta_expand by linarith

lemma sys_cpu_utilization_range:
  assumes "jps \<noteq> 0"
  shows "0 \<le> sys_cpu_utilization prev_cpu curr_cpu jps \<and> sys_cpu_utilization prev_cpu curr_cpu jps \<le> 100"
proof (cases "total_delta prev_cpu curr_cpu > 0")
  case False
  then show ?thesis by (simp add: sys_cpu_utilization_def)
next
  case True
  let ?t = "real_of_int (total_delta prev_cpu curr_cpu)"
  let ?i = "real_of_int (delta_jiffies prev_cpu curr_cpu ''idle'')"
  have t: "0 < ?t" using True by simp
  have i: "0 \<le> ?i" "?i \<le> ?t"
    using delta_jiffies_nonneg[of prev_cpu curr_cpu "''idle''"] idle_le_total[of prev_cpu curr_cpu] by simp_all
  have u: "sys_cpu_utilization prev_cpu curr_cpu jps = ((?t - ?i) / ?t) * 100"
    using True assms by (simp add: sys_cpu_utilization_def cpu_deltas_def Let_def)
  from t i have "0 \<le> (?t - ?i) / ?t" "(?t - ?i) / ?t \<le> 1" by simp_all
  then show ?thesis unfolding u by (rule percent_of_fraction(1))
qed

lemma sys_cpu_utilization_no_ticks:
  "total_delta prev_cpu curr_cpu = 0 \<Longrightarrow> sys_cpu_utilization prev_cpu curr_cpu jps = 0"
  by (simp add: sys_cpu_utilization_def)

lemma proc_stat_counters_nonneg:
  "0 \<le> dict_get (compute_proc_stat_deltas prev_stat curr_stat td tck) ''sys_context_switches'' 0 \<and>
   0 \<le> dict_get (compute_proc_stat_deltas prev_stat curr_stat td tck) ''sys_processes_created'' 0"
proof (cases "compute_proc_stat_deltas prev_stat curr_stat td tck = []")
  case True
  then show ?thesis by (simp add: dict_get_def)
next
  case False
  from proc_stat_counter_deltas[OF False] show ?thesis
    by (simp add: spec_delta_nonneg)
qed

lemma byte_delta_nonneg: "0 \<le> byte_delta c0 c1 k"
  by (simp add: byte_delta_def)

text \<open>The unfolding rules that evaluate the feature collector on the concrete cycle.\<close>

lemmas feature_eval = busy_env_def busy_collector_def stat_at_def snap_at_def idle_env_def
  compute_proc_stat_deltas_def stat_is_empty_def get_or_def cpu_entries_def cpu_deltas_def
  delta_jiffies_def total_delta_def sys_cpu_utilization_def cpu_keys_def dict_get_def
  os_deltas_def byte_delta_def os_total_def py_or_def spec_delta_def Let_def

subsection \<open>The synchronized window\<close>

text \<open>
  Claim C5.  In a synchronized cycle in which the clock does not run backwards and
  \<open>time.sleep\<close> does not return early (\<open>wake_lag\<close> is not negative), a feature point is
  emitted, its timestamp is the reading \<open>T1\<close>, and both \<open>T1 - T0\<close> and the recorded
  \<open>time_delta_seconds\<close> are at least the collection interval, however long the counter
  measurement took.
\<close>

theorem window_at_least_interval:
  assumes "v_synchronized c" and "0 \<le> wake_lag env"
  shows "\<exists>pt. fst (collect_feature_point c env) = Some pt \<and>
           fp_timestamp pt = t1_reading c env \<and>
           v_collection_interval c \<le> fp_timestamp pt - t_start env \<and>
           v_collection_interval c \<le> time_delta_seconds pt"
proof -
  from collect_feature_point_sync[OF assms(1), of env] obtain pt where
    pt: "fst (collect_feature_point c env) = Some pt"
      "fp_timestamp pt = t1_reading c env"
      "time_delta_seconds pt = max (1 / 1000000) (t1_reading c env - t_start env)"
    by (simp add: make_point_def)
  from t1_reading_ge[OF assms(2), of c] pt show ?thesis by simp
qed

text \<open>
  Claim C5 on the concrete cycle: interval 1 s, the counter measurement returns after
  0.25 s, the collector sleeps the remaining 0.75 s and wakes 0.01 s late; the window
  is 1.01 s.
\<close>

theorem window_at_least_interval_witness:
  "v_synchronized busy_collector \<and> 0 \<le> wake_lag busy_env \<and>
   v_collection_interval busy_collector = 1 \<and> pmc_elapsed busy_env = 1 / 4 \<and>
   t1_reading busy_collector busy_env - t_start busy_env = 1 + 1 / 100 \<and>
   (\<exists>pt. fst (collect_feature_point busy_collector busy_env) = Some pt \<and>
      1 \<le> fp_timestamp pt - t_start busy_env \<and> 1 \<le> time_delta_seconds pt)"
proof -
  have a: "v_synchronized busy_collector" "0 \<le> wake_lag busy_env"
     "v_collection_interval busy_collector = 1" "pmc_elapsed busy_env = 1 / 4"
    by (simp_all add: busy_collector_def busy_env_def)
  have b: "t1_reading busy_collector busy_env - t_start busy_env = 1 + 1 / 100"
    by (simp add: t1_reading_def time_sleep_def busy_collector_def busy_env_def Let_def)
  from window_at_least_interval[OF a(1) a(2)] a b show ?thesis by auto
qed

subsection \<open>Counter deltas\<close>

text \<open>What the two functions emit, entry by entry.\<close>

lemma proc_stat_seconds_emitted:
  assumes "cpu_block_runs prev_stat curr_stat tck"
  shows "dict_get (compute_proc_stat_deltas prev_stat curr_stat td tck) ''sys_cpu_user_seconds'' 0
           = cpu_deltas (get_or (ps_cpu prev_stat) []) (get_or (ps_cpu curr_stat) []) (get_or tck 100) ''user''"
    and "dict_get (compute_proc_stat_deltas prev_stat curr_stat td tck) ''sys_cpu_system_seconds'' 0
           = cpu_deltas (get_or (ps_cpu prev_stat) []) (get_or (ps_cpu curr_stat) []) (get_or tck 100) ''system''"
    and "dict_get (compute_proc_stat_deltas prev_stat curr_stat td tck) ''sys_cpu_total_seconds'' 0
           = cpu_deltas (get_or (ps_cpu prev_stat) []) (get_or (ps_cpu curr_stat) []) (get_or tck 100) ''user''
           + cpu_deltas (get_or (ps_cpu prev_stat) []) (get_or (ps_cpu curr_stat) []) (get_or tck 100) ''system''
           + cpu_deltas (get_or (ps_cpu prev_stat) []) (get_or (ps_cpu curr_stat) []) (get_or tck 100) ''nice''"
  using assms
  by (simp_all add: cpu_block_runs_def compute_proc_stat_deltas_def Let_def dict_get_def cpu_entries_def)

lemma proc_stat_percent_emitted:
  assumes "cpu_block_runs prev_stat curr_stat tck"
    and "0 < total_delta (get_or (ps_cpu prev_stat) []) (get_or (ps_cpu curr_stat) [])"
    and "field \<in> set cpu_keys"
  shows "dict_get (compute_proc_stat_deltas prev_stat curr_stat td tck) (''sys_cpu_'' @ field @ ''_percent'') 0
           = (cpu_deltas (get_or (ps_cpu prev_stat) []) (get_or (ps_cpu curr_stat) []) (get_or tck 100) field
                * real_of_int (get_or tck 100)
              / real_of_int (total_delta (get_or (ps_cpu prev_stat) []) (get_or (ps_cpu curr_stat) []))) * 100"
  using assms
  by (auto simp: cpu_block_runs_def compute_proc_stat_deltas_def Let_def dict_get_def cpu_entries_def
        cpu_keys_def)

lemma proc_stat_nonempty_iff:
  "compute_proc_stat_deltas prev_stat curr_stat td tck \<noteq> [] \<longleftrightarrow>
     \<not> stat_is_empty prev_stat \<and> \<not> stat_is_empty curr_stat \<and>
     (get_or (ps_cpu prev_stat) [] = [] \<or> get_or (ps_cpu curr_stat) [] = [] \<or> get_or tck 100 \<noteq> 0)"
  by (auto simp: compute_proc_stat_deltas_def Let_def cpu_entries_def split: if_splits)

lemma os_percent_emitted:
  assumes "field \<in> set cpu_keys"
  shows "dict_get (compute_os_metrics_from_snapshots snap_a snap_b td) (dict_get metrics_map field []) 0
           = (os_deltas snap_a snap_b field / os_total snap_a snap_b td) * 100"
  using assms
  by (auto simp: compute_os_metrics_from_snapshots_def Let_def cpu_keys_def metrics_map_def dict_get_def)

lemma proc_stat_seconds_absent:
  assumes "\<not> cpu_block_runs prev_stat curr_stat tck"
  shows "dict_get (compute_proc_stat_deltas prev_stat curr_stat td tck) ''sys_cpu_user_seconds'' 0 = 0"
    and "dict_get (compute_proc_stat_deltas prev_stat curr_stat td tck) ''sys_cpu_system_seconds'' 0 = 0"
    and "dict_get (compute_proc_stat_deltas prev_stat curr_stat td tck) ''sys_cpu_total_seconds'' 0 = 0"
  using assms
  by (auto simp: cpu_block_runs_def compute_proc_stat_deltas_def Let_def dict_get_def cpu_entries_def)

lemma cpu_deltas_nonneg: "0 < jps \<Longrightarrow> 0 \<le> cpu_deltas prev_cpu curr_cpu jps field"
  by (simp add: cpu_deltas_def delta_jiffies_nonneg)

lemma proc_stat_seconds_nonneg:
  assumes "0 < get_or tck 100"
  shows "0 \<le> dict_get (compute_proc_stat_deltas prev_stat curr_stat td tck) ''sys_cpu_user_seconds'' 0 \<and>
         0 \<le> dict_get (compute_proc_stat_deltas prev_stat curr_stat td tck) ''sys_cpu_system_seconds'' 0 \<and>
         0 \<le> dict_get (compute_proc_stat_deltas prev_stat curr_stat td tck) ''sys_cpu_total_seconds'' 0"
proof (cases "cpu_block_runs prev_stat curr_stat tck")
  case True
  from proc_stat_seconds_emitted[OF True, of td] cpu_deltas_nonneg[OF assms]
  show ?thesis by (simp add: add_nonneg_nonneg)
next
  case False
  from proc_stat_seconds_absent[OF False, of td] show ?thesis by simp
qed

lemma cpu_deltas_spec:
  "cpu_deltas prev_cpu curr_cpu jps field
     = real_of_int (spec_delta (dict_get prev_cpu field 0) (dict_get curr_cpu field 0)) / real_of_int jps"
  by (simp add: cpu_deltas_def delta_jiffies_spec)

text \<open>
  Claim C6.  Every counter delta of \<open>_compute_proc_stat_deltas\<close> and of
  \<open>_compute_os_metrics_from_snapshots\<close> is the delta of the specification: \<open>curr - prev\<close>
  when \<open>curr \<ge> prev\<close>, 0 after a reset.  This holds for the jiffies and seconds of a CPU
  field and for the entries the functions emit: \<open>sys_context_switches\<close> and
  \<open>sys_processes_created\<close>; \<open>sys_cpu_user_seconds\<close>, \<open>sys_cpu_system_seconds\<close> and
  \<open>sys_cpu_total_seconds\<close> (the deltas over the ticks per second); the per-field
  percentages of both functions (the deltas over their total); the network bytes and the
  disk megabytes.  \<open>_compute_proc_stat_deltas\<close> emits entries exactly when both snapshots
  have a key and the CPU block does not divide by zero.  No emitted delta is negative
  (the CPU seconds for positive ticks per second).
\<close>

theorem counter_deltas_clamped:
  "delta_jiffies prev_cpu curr_cpu field
     = spec_delta (dict_get prev_cpu field 0) (dict_get curr_cpu field 0) \<and>
   os_deltas snap_a snap_b field
     = spec_delta (dict_get (get_or (os_cpu_times snap_a) []) field 0)
                  (dict_get (get_or (os_cpu_times snap_b) []) field 0) \<and>
   byte_delta ctr_a ctr_b field
     = spec_delta (dict_get (get_or ctr_a []) field 0) (dict_get (get_or ctr_b []) field 0) \<and>
   (compute_proc_stat_deltas prev_stat curr_stat td tck \<noteq> [] \<longrightarrow>
      dict_get (compute_proc_stat_deltas prev_stat curr_stat td tck) ''sys_context_switches'' 0
        = real_of_int (spec_delta (get_or (ps_context_switches prev_stat) 0)
                                  (get_or (ps_context_switches curr_stat) 0)) \<and>
      dict_get (compute_proc_stat_deltas prev_stat curr_stat td tck) ''sys_processes_created'' 0
        = real_of_int (spec_delta (get_or (ps_processes_created prev_stat) 0)
                                  (get_or (ps_processes_created curr_stat) 0))) \<and>
   dict_get (compute_os_metrics_from_snapshots snap_a snap_b td) ''network_bytes_sent'' 0
     = real_of_int (byte_delta (os_net_io snap_a) (os_net_io snap_b) ''bytes_sent'') \<and>
   dict_get (compute_os_metrics_from_snapshots snap_a snap_b td) ''network_bytes_recv'' 0
     = real_of_int (byte_delta (os_net_io snap_a) (os_net_io snap_b) ''bytes_recv'') \<and>
   dict_get (compute_os_metrics_from_snapshots snap_a snap_b td) ''disk_io_read_mb'' 0
     = real_of_int (byte_delta (os_disk_io snap_a) (os_disk_io snap_b) ''read_bytes'') / (1024 * 1024) \<and>
   dict_get (compute_os_metrics_from_snapshots snap_a snap_b td) ''disk_io_write_mb'' 0
     = real_of_int (byte_delta (os_disk_io snap_a) (os_disk_io snap_b) ''write_bytes'') / (1024 * 1024) \<and>
   cpu_deltas prev_cpu curr_cpu jps field
     = real_of_int (spec_delta (dict_get prev_cpu field 0) (dict_get curr_cpu field 0)) / real_of_int jps \<and>
   (0 < jps \<longrightarrow> 0 \<le> cpu_deltas prev_cpu curr_cpu jps field) \<and>
   0 \<le> delta_jiffies prev_cpu curr_cpu field \<and>
   0 \<le> os_deltas snap_a snap_b field \<and>
   0 \<le> byte_delta ctr_a ctr_b field \<and>
   0 \<le> dict_get (compute_proc_stat_deltas prev_stat curr_stat td tck) ''sys_context_switches'' 0 \<and>
   0 \<le> dict_get (compute_proc_stat_deltas prev_stat curr_stat td tck) ''sys_processes_created'' 0 \<and>
   (compute_proc_stat_deltas prev_stat curr_stat td tck \<noteq> [] \<longleftrightarrow>
      \<not> stat_is_empty prev_stat \<and> \<not> stat_is_empty curr_stat \<and>
      (get_or (ps_cpu prev_stat) [] = [] \<or> get_or (ps_cpu curr_stat) [] = [] \<or> get_or tck 100 \<noteq> 0)) \<and>
   (cpu_block_runs prev_stat curr_stat tck \<longrightarrow>
      dict_get (compute_proc_stat_deltas prev_stat curr_stat td tck) ''sys_cpu_user_seconds'' 0
        = real_of_int (spec_delta (dict_get (get_or (ps_cpu prev_stat) []) ''user'' 0)
                                  (dict_get (get_or (ps_cpu curr_stat) []) ''user'' 0))
            / real_of_int (get_or tck 100) \<and>
      dict_get (compute_proc_stat_deltas prev_stat curr_stat td tck) ''sys_cpu_system_seconds'' 0
        = real_of_int (spec_delta (dict_get (get_or (ps_cpu prev_stat) []) ''system'' 0)
                                  (dict_get (get_or (ps_cpu curr_stat) []) ''system'' 0))
            / real_of_int (get_or tck 100) \<and>
      dict_get (compute_proc_stat_deltas prev_stat curr_stat td tck) ''sys_cpu_total_seconds'' 0
        = real_of_int (spec_delta (dict_get (get_or (ps_cpu prev_stat) []) ''user'' 0)
                                  (dict_get (get_or (ps_cpu curr_stat) []) ''user'' 0))
            / real_of_int (get_or tck 100)
        + real_of_int (spec_delta (dict_get (get_or (ps_cpu prev_stat) []) ''system'' 0)
                                  (dict_get (get_or (ps_cpu curr_stat) []) ''system'' 0))
            / real_of_int (get_or tck 100)
        + real_of_int (spec_delta (dict_get (get_or (ps_cpu prev_stat) []) ''nice'' 0)
                                  (dict_get (get_or (ps_cpu curr_stat) []) ''nice'' 0))
            / real_of_int (get_or tck 100)) \<and>
   (cpu_block_runs prev_stat curr_stat tck \<and>
    0 < total_delta (get_or (ps_cpu prev_stat) []) (get_or (ps_cpu curr_stat) []) \<and>
    field \<in> set cpu_keys \<longrightarrow>
      dict_get (compute_proc_stat_deltas prev_stat curr_stat td tck) (''sys_cpu_'' @ field @ ''_percent'') 0
        = (real_of_int (spec_delta (dict_get (get_or (ps_cpu prev_stat) []) field 0)
                                   (dict_get (get_or (ps_cpu curr_stat) []) field 0))
             / real_of_int (get_or tck 100) * real_of_int (get_or tck 100)
           / real_of_int (total_delta (get_or (ps_cpu prev_stat) []) (get_or (ps_cpu curr_stat) []))) * 100) \<and>
   (field \<in> set cpu_keys \<longrightarrow>
      dict_get (compute_os_metrics_from_snapshots snap_a snap_b td) (dict_get metrics_map field []) 0
        = (spec_delta (dict_get (get_or (os_cpu_times snap_a) []) field 0)
                      (dict_get (get_or (os_cpu_times snap_b) []) field 0)
           / os_total snap_a snap_b td) * 100) \<and>
   (0 < get_or tck 100 \<longrightarrow>
      0 \<le> dict_get (compute_proc_stat_deltas prev_stat curr_stat td tck) ''sys_cpu_user_seconds'' 0 \<and>
      0 \<le> dict_get (compute_proc_stat_deltas prev_stat curr_stat td tck) ''sys_cpu_system_seconds'' 0 \<and>
      0 \<le> dict_get (compute_proc_stat_deltas prev_stat curr_stat td tck) ''sys_cpu_total_seconds'' 0) \<and>
   0 \<le> dict_get (compute_os_metrics_from_snapshots snap_a snap_b td) ''network_bytes_sent'' 0 \<and>
   0 \<le> dict_get (compute_os_metrics_from_snapshots snap_a snap_b td) ''network_bytes_recv'' 0 \<and>
   0 \<le> dict_get (compute_os_metrics_from_snapshots snap_a snap_b td) ''disk_io_read_mb'' 0 \<and>
   0 \<le> dict_get (compute_os_metrics_from_snapshots snap_a snap_b td) ''disk_io_write_mb'' 0"
proof -
  have old: "delta_jiffies prev_cpu curr_cpu field
     = spec_delta (dict_get prev_cpu field 0) (dict_get curr_cpu field 0) \<and>
   os_deltas snap_a snap_b field
     = spec_delta (dict_get (get_or (os_cpu_times snap_a) []) field 0)
                  (dict_get (get_or (os_cpu_times snap_b) []) field 0) \<and>
   byte_delta ctr_a ctr_b field
     = spec_delta (dict_get (get_or ctr_a []) field 0) (dict_get (get_or ctr_b []) field 0) \<and>
   (compute_proc_stat_deltas prev_stat curr_stat td tck \<noteq> [] \<longrightarrow>
      dict_get (compute_proc_stat_deltas prev_stat curr_stat td tck) ''sys_context_switches'' 0
        = real_of_int (spec_delta (get_or (ps_context_switches prev_stat) 0)
                                  (get_or (ps_context_switches curr_stat) 0)) \<and>
      dict_get (compute_proc_stat_deltas prev_stat curr_stat td tck) ''sys_processes_created'' 0
        = real_of_int (spec_delta (get_or (ps_processes_created prev_stat) 0)
                                  (get_or (ps_processes_created curr_stat) 0))) \<and>
   dict_get (compute_os_metrics_from_snapshots snap_a snap_b td) ''network_bytes_sent'' 0
     = real_of_int (byte_delta (os_net_io snap_a) (os_net_io snap_b) ''bytes_sent'') \<and>
   dict_get (compute_os_metrics_from_snapshots snap_a snap_b td) ''network_bytes_recv'' 0
     = real_of_int (byte_delta (os_net_io snap_a) (os_net_io snap_b) ''bytes_recv'') \<and>
   dict_get (compute_os_metrics_from_snapshots snap_a snap_b td) ''disk_io_read_mb'' 0
     = real_of_int (byte_delta (os_disk_io snap_a) (os_disk_io snap_b) ''read_bytes'') / (1024 * 1024) \<and>
   dict_get (compute_os_metrics_from_snapshots snap_a snap_b td) ''disk_io_write_mb'' 0
     = real_of_int (byte_delta (os_disk_io snap_a) (os_disk_io snap_b) ''write_bytes'') / (1024 * 1024) \<and>
   cpu_deltas prev_cpu curr_cpu jps field
     = real_of_int (spec_delta (dict_get prev_cpu field 0) (dict_get curr_cpu field 0)) / real_of_int jps \<and>
   (0 < jps \<longrightarrow> 0 \<le> cpu_deltas prev_cpu curr_cpu jps field) \<and>
   0 \<le> delta_jiffies prev_cpu curr_cpu field \<and>
   0 \<le> os_deltas snap_a snap_b field \<and>
   0 \<le> byte_delta ctr_a ctr_b field \<and>
   0 \<le> dict_get (compute_proc_stat_deltas prev_stat curr_stat td tck) ''sys_context_switches'' 0 \<and>
   0 \<le> dict_get (compute_proc_stat_deltas prev_stat curr_stat td tck) ''sys_processes_created'' 0"
    using proc_stat_counter_deltas[of prev_stat curr_stat td tck]
      proc_stat_counters_nonneg[of prev_stat curr_stat td tck]
    by (simp add: delta_jiffies_spec os_deltas_spec byte_delta_spec os_metrics_entries spec_delta_nonneg
          cpu_deltas_def)
  have ne: "compute_proc_stat_deltas prev_stat curr_stat td tck \<noteq> [] \<longleftrightarrow>
      \<not> stat_is_empty prev_stat \<and> \<not> stat_is_empty curr_stat \<and>
      (get_or (ps_cpu prev_stat) [] = [] \<or> get_or (ps_cpu curr_stat) [] = [] \<or> get_or tck 100 \<noteq> 0)"
    by (rule proc_stat_nonempty_iff)
  have sec: "cpu_block_runs prev_stat curr_stat tck \<longrightarrow>
      dict_get (compute_proc_stat_deltas prev_stat curr_stat td tck) ''sys_cpu_user_seconds'' 0
        = real_of_int (spec_delta (dict_get (get_or (ps_cpu prev_stat) []) ''user'' 0)
                                  (dict_get (get_or (ps_cpu curr_stat) []) ''user'' 0))
            / real_of_int (get_or tck 100) \<and>
      dict_get (compute_proc_stat_deltas prev_stat curr_stat td tck) ''sys_cpu_system_seconds'' 0
        = real_of_int (spec_delta (dict_get (get_or (ps_cpu prev_stat) []) ''system'' 0)
                                  (dict_get (get_or (ps_cpu curr_stat) []) ''system'' 0))
            / real_of_int (get_or tck 100) \<and>
      dict_get (compute_proc_stat_deltas prev_stat curr_stat td tck) ''sys_cpu_total_seconds'' 0
        = real_of_int (spec_delta (dict_get (get_or (ps_cpu prev_stat) []) ''user'' 0)
                                  (dict_get (get_or (ps_cpu curr_stat) []) ''user'' 0))
            / real_of_int (get_or tck 100)
        + real_of_int (spec_delta (dict_get (get_or (ps_cpu prev_stat) []) ''system'' 0)
                                  (dict_get (get_or (ps_cpu curr_stat) []) ''system'' 0))
            / real_of_int (get_or tck 100)
        + real_of_int (spec_delta (dict_get (get_or (ps_cpu prev_stat) []) ''nice'' 0)
                                  (dict_get (get_or (ps_cpu curr_stat) []) ''nice'' 0))
            / real_of_int (get_or tck 100)"
    by (simp add: proc_stat_seconds_emitted cpu_deltas_spec)
  have pct: "cpu_block_runs prev_stat curr_stat tck \<and>
    0 < total_delta (get_or (ps_cpu prev_stat) []) (get_or (ps_cpu curr_stat) []) \<and>
    field \<in> set cpu_keys \<longrightarrow>
      dict_get (compute_proc_stat_deltas prev_stat curr_stat td tck) (''sys_cpu_'' @ field @ ''_percent'') 0
        = (real_of_int (spec_delta (dict_get (get_or (ps_cpu prev_stat) []) field 0)
                                   (dict_get (get_or (ps_cpu curr_stat) []) field 0))
             / real_of_int (get_or tck 100) * real_of_int (get_or tck 100)
           / real_of_int (total_delta (get_or (ps_cpu prev_stat) []) (get_or (ps_cpu curr_stat) []))) * 100"
    using proc_stat_percent_emitted[of prev_stat curr_stat tck field td]
    by (simp only: cpu_deltas_spec) blast
  have ospct: "field \<in> set cpu_keys \<longrightarrow>
      dict_get (compute_os_metrics_from_snapshots snap_a snap_b td) (dict_get metrics_map field []) 0
        = (spec_delta (dict_get (get_or (os_cpu_times snap_a) []) field 0)
                      (dict_get (get_or (os_cpu_times snap_b) []) field 0)
           / os_total snap_a snap_b td) * 100"
    using os_percent_emitted[of field snap_a snap_b td]
    by (simp only: os_deltas_spec) blast
  have nn: "0 < get_or tck 100 \<longrightarrow>
      0 \<le> dict_get (compute_proc_stat_deltas prev_stat curr_stat td tck) ''sys_cpu_user_seconds'' 0 \<and>
      0 \<le> dict_get (compute_proc_stat_deltas prev_stat curr_stat td tck) ''sys_cpu_system_seconds'' 0 \<and>
      0 \<le> dict_get (compute_proc_stat_deltas prev_stat curr_stat td tck) ''sys_cpu_total_seconds'' 0"
    using proc_stat_seconds_nonneg[of tck prev_stat curr_stat td] by blast
  have osnn: "0 \<le> dict_get (compute_os_metrics_from_snapshots snap_a snap_b td) ''network_bytes_sent'' 0 \<and>
   0 \<le> dict_get (compute_os_metrics_from_snapshots snap_a snap_b td) ''network_bytes_recv'' 0 \<and>
   0 \<le> dict_get (compute_os_metrics_from_snapshots snap_a snap_b td) ''disk_io_read_mb'' 0 \<and>
   0 \<le> dict_get (compute_os_metrics_from_snapshots snap_a snap_b td) ''disk_io_write_mb'' 0"
    by (simp add: os_metrics_entries byte_delta_nonneg)
  from old ne sec pct ospct nn osnn show ?thesis by blast
qed

text \<open>
  Claim C6 on two concrete cycles.  With growing counters the emitted entries are the
  differences: 30 user ticks at 100 ticks per second are 0.3 s, idle is 70 percent of the
  100 ticks, 25 context switches, 2 processes, 30 percent user time, 2000 bytes sent and
  2 MB read.  With a context-switch counter that falls from 40 to 25 and a sent-bytes
  counter that falls from 3000 to 1000 the emitted deltas are 0.
\<close>

theorem counter_deltas_clamped_witness:
  "cpu_block_runs (proc_stat0 rising_env) (proc_stat1 rising_env) (clk_tck rising_env) \<and>
   dict_get (compute_proc_stat_deltas (proc_stat0 rising_env) (proc_stat1 rising_env) 1 (clk_tck rising_env))
     ''sys_cpu_user_seconds'' 0 = 3 / 10 \<and>
   dict_get (compute_proc_stat_deltas (proc_stat0 rising_env) (proc_stat1 rising_env) 1 (clk_tck rising_env))
     ''sys_cpu_total_seconds'' 0 = 3 / 10 \<and>
   dict_get (compute_proc_stat_deltas (proc_stat0 rising_env) (proc_stat1 rising_env) 1 (clk_tck rising_env))
     ''sys_cpu_idle_percent'' 0 = 70 \<and>
   dict_get (compute_proc_stat_deltas (proc_stat0 rising_env) (proc_stat1 rising_env) 1 (clk_tck rising_env))
     ''sys_context_switches'' 0 = 25 \<and>
   dict_get (compute_proc_stat_deltas (proc_stat0 rising_env) (proc_stat1 rising_env) 1 (clk_tck rising_env))
     ''sys_processes_created'' 0 = 2 \<and>
   dict_get (compute_os_metrics_from_snapshots (os0 rising_env) (os1 rising_env) 1) ''cpu_user_time'' 0 = 30 \<and>
   dict_get (compute_os_metrics_from_snapshots (os0 rising_env) (os1 rising_env) 1) ''network_bytes_sent'' 0 = 2000 \<and>
   dict_get (compute_os_metrics_from_snapshots (os0 rising_env) (os1 rising_env) 1) ''disk_io_read_mb'' 0 = 2 \<and>
   get_or (ps_context_switches (proc_stat0 busy_env)) 0 = 40 \<and>
   get_or (ps_context_switches (proc_stat1 busy_env)) 0 = 25 \<and>
   dict_get (compute_proc_stat_deltas (proc_stat0 busy_env) (proc_stat1 busy_env) 1 (clk_tck busy_env))
     ''sys_context_switches'' 0 = 0 \<and>
   dict_get (compute_os_metrics_from_snapshots (os0 busy_env) (os1 busy_env) 1) ''network_bytes_sent'' 0 = 0"
proof -
  let ?P = "get_or (ps_cpu (proc_stat0 rising_env)) []"
  let ?C = "get_or (ps_cpu (proc_stat1 rising_env)) []"
  have runs: "cpu_block_runs (proc_stat0 rising_env) (proc_stat1 rising_env) (clk_tck rising_env)"
    by (simp add: cpu_block_runs_def rising_env_def feature_eval)
  have tck: "get_or (clk_tck rising_env) 100 = 100"
    by (simp add: rising_env_def feature_eval)
  have cpu: "dict_get ?P ''user'' 0 = 500" "dict_get ?C ''user'' 0 = 530"
      "dict_get ?P ''system'' 0 = 0" "dict_get ?C ''system'' 0 = 0"
      "dict_get ?P ''nice'' 0 = 0" "dict_get ?C ''nice'' 0 = 0"
      "dict_get ?P ''idle'' 0 = 900" "dict_get ?C ''idle'' 0 = 970"
    by (simp_all add: rising_env_def feature_eval)
  have tot: "total_delta ?P ?C = 100"
    by (simp add: rising_env_def feature_eval)
  have cnt: "get_or (ps_context_switches (proc_stat0 rising_env)) 0 = 40"
      "get_or (ps_context_switches (proc_stat1 rising_env)) 0 = 65"
      "get_or (ps_processes_created (proc_stat0 rising_env)) 0 = 7"
      "get_or (ps_processes_created (proc_stat1 rising_env)) 0 = 9"
    by (simp_all add: rising_env_def feature_eval)
  have os: "dict_get (get_or (os_cpu_times (os0 rising_env)) []) ''user'' 0 = 5"
      "dict_get (get_or (os_cpu_times (os1 rising_env)) []) ''user'' 0 = 53 / 10"
      "os_total (os0 rising_env) (os1 rising_env) 1 = 1"
      "dict_get metrics_map ''user'' [] = ''cpu_user_time''"
    by (simp_all add: rising_env_def metrics_map_def feature_eval)
  have io: "dict_get (get_or (os_net_io (os0 rising_env)) []) ''bytes_sent'' 0 = 3000"
      "dict_get (get_or (os_net_io (os1 rising_env)) []) ''bytes_sent'' 0 = 5000"
      "dict_get (get_or (os_disk_io (os0 rising_env)) []) ''read_bytes'' 0 = 0"
      "dict_get (get_or (os_disk_io (os1 rising_env)) []) ''read_bytes'' 0 = 2097152"
    by (simp_all add: rising_env_def feature_eval)
  have keys: "''user'' \<in> set cpu_keys" "''idle'' \<in> set cpu_keys"
    by (simp_all add: cpu_keys_def)
  have sd: "spec_delta (500::int) 530 = 30" "spec_delta (0::int) 0 = 0" "spec_delta (900::int) 970 = 70"
      "spec_delta (40::int) 65 = 25" "spec_delta (7::int) 9 = 2" "spec_delta (5::real) (53 / 10) = 3 / 10"
      "spec_delta (3000::int) 5000 = 2000" "spec_delta (0::int) 2097152 = 2097152"
      "spec_delta (40::int) 25 = 0" "spec_delta (3000::int) 1000 = 0"
    by (simp_all add: spec_delta_def)
  note user = counter_deltas_clamped[where prev_cpu = ?P and curr_cpu = ?C and field = "''user''"
      and snap_a = "os0 rising_env" and snap_b = "os1 rising_env"
      and ctr_a = "os_net_io (os0 rising_env)" and ctr_b = "os_net_io (os1 rising_env)"
      and prev_stat = "proc_stat0 rising_env" and curr_stat = "proc_stat1 rising_env"
      and td = 1 and tck = "clk_tck rising_env" and jps = 100]
  note idle = counter_deltas_clamped[where prev_cpu = ?P and curr_cpu = ?C and field = "''idle''"
      and snap_a = "os0 rising_env" and snap_b = "os1 rising_env"
      and ctr_a = "os_net_io (os0 rising_env)" and ctr_b = "os_net_io (os1 rising_env)"
      and prev_stat = "proc_stat0 rising_env" and curr_stat = "proc_stat1 rising_env"
      and td = 1 and tck = "clk_tck rising_env" and jps = 100]
  note sent = counter_deltas_clamped[where prev_cpu = ?P and curr_cpu = ?C and field = "''bytes_sent''"
      and snap_a = "os0 rising_env" and snap_b = "os1 rising_env"
      and ctr_a = "os_net_io (os0 rising_env)" and ctr_b = "os_net_io (os1 rising_env)"
      and prev_stat = "proc_stat0 rising_env" and curr_stat = "proc_stat1 rising_env"
      and td = 1 and tck = "clk_tck rising_env" and jps = 100]
  note disk = counter_deltas_clamped[where prev_cpu = ?P and curr_cpu = ?C and field = "''read_bytes''"
      and snap_a = "os0 rising_env" and snap_b = "os1 rising_env"
      and ctr_a = "os_disk_io (os0 rising_env)" and ctr_b = "os_disk_io (os1 rising_env)"
      and prev_stat = "proc_stat0 rising_env" and curr_stat = "proc_stat1 rising_env"
      and td = 1 and tck = "clk_tck rising_env" and jps = 100]
  note reset = counter_deltas_clamped[where prev_cpu = "[]" and curr_cpu = "[]" and field = "''bytes_sent''"
      and snap_a = "os0 busy_env" and snap_b = "os1 busy_env"
      and ctr_a = "os_net_io (os0 busy_env)" and ctr_b = "os_net_io (os1 busy_env)"
      and prev_stat = "proc_stat0 busy_env" and curr_stat = "proc_stat1 busy_env"
      and td = 1 and tck = "clk_tck busy_env" and jps = 100]
  have ne: "compute_proc_stat_deltas (proc_stat0 rising_env) (proc_stat1 rising_env) 1 (clk_tck rising_env) \<noteq> []"
    using user runs by (simp add: cpu_block_runs_def)
  from user runs tck cpu sd
  have a: "dict_get (compute_proc_stat_deltas (proc_stat0 rising_env) (proc_stat1 rising_env) 1 (clk_tck rising_env))
     ''sys_cpu_user_seconds'' 0 = 3 / 10"
    by simp
  from user runs tck cpu sd
  have b: "dict_get (compute_proc_stat_deltas (proc_stat0 rising_env) (proc_stat1 rising_env) 1 (clk_tck rising_env))
     ''sys_cpu_total_seconds'' 0 = 3 / 10"
    by simp
  from idle runs tck cpu sd tot keys
  have c: "dict_get (compute_proc_stat_deltas (proc_stat0 rising_env) (proc_stat1 rising_env) 1 (clk_tck rising_env))
     ''sys_cpu_idle_percent'' 0 = 70"
    by simp
  from user ne cnt sd
  have d: "dict_get (compute_proc_stat_deltas (proc_stat0 rising_env) (proc_stat1 rising_env) 1 (clk_tck rising_env))
     ''sys_context_switches'' 0 = 25"
     "dict_get (compute_proc_stat_deltas (proc_stat0 rising_env) (proc_stat1 rising_env) 1 (clk_tck rising_env))
     ''sys_processes_created'' 0 = 2"
    by simp_all
  from user keys os sd
  have e: "dict_get (compute_os_metrics_from_snapshots (os0 rising_env) (os1 rising_env) 1) ''cpu_user_time'' 0 = 30"
    by simp
  from sent io sd
  have f: "dict_get (compute_os_metrics_from_snapshots (os0 rising_env) (os1 rising_env) 1) ''network_bytes_sent'' 0 = 2000"
    by simp
  from disk io sd
  have g: "dict_get (compute_os_metrics_from_snapshots (os0 rising_env) (os1 rising_env) 1) ''disk_io_read_mb'' 0 = 2"
    by simp
  have bne: "compute_proc_stat_deltas (proc_stat0 busy_env) (proc_stat1 busy_env) 1 (clk_tck busy_env) \<noteq> []"
    by (simp add: feature_eval)
  have bcs: "get_or (ps_context_switches (proc_stat0 busy_env)) 0 = 40"
      "get_or (ps_context_switches (proc_stat1 busy_env)) 0 = 25"
    by (simp_all add: feature_eval)
  have bio: "dict_get (get_or (os_net_io (os0 busy_env)) []) ''bytes_sent'' 0 = 3000"
     "dict_get (get_or (os_net_io (os1 busy_env)) []) ''bytes_sent'' 0 = 1000"
    by (simp_all add: feature_eval)
  from reset bne bcs sd
  have h: "dict_get (compute_proc_stat_deltas (proc_stat0 busy_env) (proc_stat1 busy_env) 1 (clk_tck busy_env))
     ''sys_context_switches'' 0 = 0"
    by simp
  from reset bio sd
  have i: "dict_get (compute_os_metrics_from_snapshots (os0 busy_env) (os1 busy_env) 1) ''network_bytes_sent'' 0 = 0"
    by simp
  from runs a b c d e f g bcs h i show ?thesis by blast
qed

subsection \<open>CPU utilization without ticks\<close>

text \<open>
  Claim C7.  With two equal snapshots the total delta is 0 on both paths.
  \<open>_compute_os_metrics_from_snapshots\<close> then divides by the elapsed time instead, every
  percentage is 0, and \<open>cpu_utilization = 100 - cpu_idle\<close> is 100: the emitted feature
  point reports a fully busy CPU.  \<open>_compute_proc_stat_deltas\<close> reports 0 on the same
  input.
\<close>

theorem os_utilization_full_without_ticks:
  "sum_list (map (os_deltas (os0 idle_env) (os1 idle_env)) cpu_keys) = 0 \<and>
   dict_get (compute_os_metrics_from_snapshots (os0 idle_env) (os1 idle_env) 1) ''cpu_utilization'' 0 = 100 \<and>
   (\<exists>pt. fst (collect_feature_point busy_collector idle_env) = Some pt \<and> cpu_utilization pt = 100) \<and>
   total_delta (get_or (ps_cpu (proc_stat0 idle_env)) []) (get_or (ps_cpu (proc_stat1 idle_env)) []) = 0 \<and>
   sys_cpu_utilization (get_or (ps_cpu (proc_stat0 idle_env)) []) (get_or (ps_cpu (proc_stat1 idle_env)) []) 100 = 0"
proof -
  have z: "sum_list (map (os_deltas (os0 idle_env) (os1 idle_env)) cpu_keys) = 0"
    by (simp add: feature_eval)
  have s: "v_synchronized busy_collector" by (simp add: busy_collector_def)
  have t: "total_delta (get_or (ps_cpu (proc_stat0 idle_env)) []) (get_or (ps_cpu (proc_stat1 idle_env)) []) = 0"
    by (simp add: feature_eval)
  have p: "\<exists>pt. fst (collect_feature_point busy_collector idle_env) = Some pt \<and> cpu_utilization pt = 100"
    unfolding collect_feature_point_sync[OF s]
    by (simp add: make_point_def os_cpu_utilization_no_ticks[OF z])
  from z t p os_cpu_utilization_no_ticks[OF z, of 1] sys_cpu_utilization_no_ticks[OF t, of 100]
  show ?thesis by blast
qed

subsection \<open>Derived ratios\<close>

text \<open>
  Claim C8.  \<open>calculate_derived_features\<close> never raises: it returns the three ratios, each
  the quotient when its divisor is positive and 0 otherwise, in particular 0 when the
  divisor is 0.  Every call of \<open>collect_feature_point\<close> emits a point carrying these
  ratios.
\<close>

theorem derived_ratios_guarded:
  "\<exists>d pt.
     calculate_derived_features (pmc_counters env) os_data = Inr d \<and>
     fst (collect_feature_point c env) = Some pt \<and>
     instructions_per_cycle pt = dict_get d ''instructions_per_cycle'' 0 \<and>
     cache_miss_ratio pt = dict_get d ''cache_miss_ratio'' 0 \<and>
     branch_miss_ratio pt = dict_get d ''branch_miss_ratio'' 0 \<and>
     dict_get d ''instructions_per_cycle'' 0
       = (if dict_get (pmc_counters env) ''cpu_cycles'' 0 > 0
          then real_of_int (dict_get (pmc_counters env) ''instructions'' 0)
                 / real_of_int (dict_get (pmc_counters env) ''cpu_cycles'' 0)
          else 0) \<and>
     dict_get d ''cache_miss_ratio'' 0
       = (if dict_get (pmc_counters env) ''cache_references'' 0 > 0
          then real_of_int (dict_get (pmc_counters env) ''cache_misses'' 0)
                 / real_of_int (dict_get (pmc_counters env) ''cache_references'' 0)
          else 0) \<and>
     dict_get d ''branch_miss_ratio'' 0
       = (if dict_get (pmc_counters env) ''branches'' 0 > 0
          then real_of_int (dict_get (pmc_counters env) ''branch_misses'' 0)
                 / real_of_int (dict_get (pmc_counters env) ''branches'' 0)
          else 0) \<and>
     (dict_get (pmc_counters env) ''cpu_cycles'' 0 = 0 \<longrightarrow> instructions_per_cycle pt = 0) \<and>
     (dict_get (pmc_counters env) ''cache_references'' 0 = 0 \<longrightarrow> cache_miss_ratio pt = 0) \<and>
     (dict_get (pmc_counters env) ''branches'' 0 = 0 \<longrightarrow> branch_miss_ratio pt = 0)"
proof -
  obtain pt where pt: "fst (collect_feature_point c env) = Some pt"
    by (cases "v_synchronized c")
       (auto simp: collect_feature_point_def Let_def calculate_derived_features_eq)
  from derived_of_point[OF pt] pt show ?thesis
    by (simp add: calculate_derived_features_eq dict_get_def[of "_ # _"] ratio_value_def)
qed

text \<open>
  Claim C8 on the concrete cycle: 3000 instructions in 2000 cycles give 1.5; 5 cache
  misses with 0 cache references and 4 branch misses with no branch count give 0.
\<close>

theorem derived_ratios_guarded_witness:
  "dict_get (pmc_counters busy_env) ''cpu_cycles'' 0 = 2000 \<and>
   dict_get (pmc_counters busy_env) ''cache_references'' 0 = 0 \<and>
   dict_get (pmc_counters busy_env) ''cache_misses'' 0 = 5 \<and>
   dict_get (pmc_counters busy_env) ''branches'' 0 = 0 \<and>
   (\<exists>pt. fst (collect_feature_point busy_collector busy_env) = Some pt \<and>
      instructions_per_cycle pt = 3 / 2 \<and> cache_miss_ratio pt = 0 \<and> branch_miss_ratio pt = 0)"
proof -
  have a: "dict_get (pmc_counters busy_env) ''cpu_cycles'' 0 = 2000"
     "dict_get (pmc_counters busy_env) ''instructions'' 0 = 3000"
     "dict_get (pmc_counters busy_env) ''cache_references'' 0 = 0"
     "dict_get (pmc_counters busy_env) ''cache_misses'' 0 = 5"
     "dict_get (pmc_counters busy_env) ''branches'' 0 = 0"
    by (simp_all add: busy_env_def dict_get_def)
  from derived_ratios_guarded[of busy_env "[]" busy_collector] a show ?thesis
    by auto
qed

end
